theory Spec2Isabelle
  imports Main "HOL-Library.Sublist" "HOL-Library.Word"
begin

chapter \<open>The policy-comparison client: HTTP wrapper, job hooks and onboarding wizard\<close>

section \<open>JavaScript values the code inspects\<close>

text \<open>
  A parsed JSON document. Numbers are integers here: the code only asks whether a
  value is truthy. An object is the list of its members in document order; a later
  member with the same name replaces an earlier one, as \<^verbatim>\<open>JSON.parse\<close> does.
\<close>

datatype json =
  JNull
| JBool bool
| JNum int
| JStr string
| JArr "json list"
| JObj "(string \<times> json) list"

text \<open>A thrown value: an instance of \<^verbatim>\<open>Error\<close> with its message, or anything else.\<close>

datatype exn = Error string | NonError

text \<open>
  What the JavaScript engine and the build environment supply: the environment
  variable read for the base URL, the coercion of a value to a string (which the
  \<^verbatim>\<open>Error\<close> constructor applies to its argument and which may itself throw), and the
  message of the \<^verbatim>\<open>TypeError\<close> raised when a property of \<^verbatim>\<open>null\<close> is read.
\<close>

record runtime =
  NEXT_PUBLIC_API_URL :: "string option"
  ToString :: "json \<Rightarrow> exn + string"
  null_property_message :: "string \<Rightarrow> string"

fun truthy :: "json \<Rightarrow> bool" where
  "truthy JNull = False"
| "truthy (JBool b) = b"
| "truthy (JNum n) = (n \<noteq> 0)"
| "truthy (JStr s) = (s \<noteq> [])"
| "truthy (JArr xs) = True"
| "truthy (JObj kvs) = True"

text \<open>
  Reading \<^verbatim>\<open>v.message\<close> or \<^verbatim>\<open>v.code\<close> of a parsed document \<open>v\<close>: a \<^verbatim>\<open>TypeError\<close> on
  \<^verbatim>\<open>null\<close>, the member of an object when it has one, \<^verbatim>\<open>undefined\<close> (\<open>None\<close>) on
  everything else. Neither name is inherited from a prototype.
\<close>

fun get_property :: "runtime \<Rightarrow> json \<Rightarrow> string \<Rightarrow> exn + json option" where
  "get_property rt JNull p = Inl (Error (null_property_message rt p))"
| "get_property rt (JObj kvs) p = Inr (map_of (rev kvs) p)"
| "get_property rt v p = Inr None"

text \<open>Truthiness of \<^verbatim>\<open>string | null | undefined\<close>, as in \<^verbatim>\<open>token ? ... : ...\<close>.\<close>

fun truthy_string :: "string option \<Rightarrow> bool" where
  "truthy_string None = False"
| "truthy_string (Some s) = (s \<noteq> [])"

definition digit_char :: "nat \<Rightarrow> char" where
  "digit_char d = ''0123456789'' ! d"

fun decimal :: "nat \<Rightarrow> string" where
  "decimal n = (if n < 10 then [digit_char n] else decimal (n div 10) @ [digit_char (n mod 10)])"

declare decimal.simps [simp del]

section \<open>The HTTP client wrapper\<close>

definition API_BASE_URL :: "runtime \<Rightarrow> string" where
  "API_BASE_URL rt =
     (if truthy_string (NEXT_PUBLIC_API_URL rt) then the (NEXT_PUBLIC_API_URL rt)
      else ''https://prisere-backend.onrender.com/v1'')"

text \<open>\<^verbatim>\<open>class ApiError extends Error\<close>: the message, the optional HTTP status, the optional code.\<close>

record ApiError =
  message :: string
  status :: "nat option"
  code :: "json option"

text \<open>What a failing operation throws: an \<^verbatim>\<open>ApiError\<close>, or a value that is not one.\<close>

datatype failure = Api ApiError | Raw exn

record File =
  name :: string
  content :: string

datatype form_value = Field string | Blob File

text \<open>A request body: the text \<^verbatim>\<open>JSON.stringify\<close> makes of a document, or a \<^verbatim>\<open>FormData\<close>.\<close>

datatype request_body = Stringified json | FormData "(string \<times> form_value) list"

text \<open>\<^verbatim>\<open>RequestInit\<close>, with the members this code sets. An absent member is \<open>None\<close>.\<close>

record RequestInit =
  http_method :: "string option"
  headers :: "(string \<times> string) list option"
  body :: "request_body option"

text \<open>One call of \<^verbatim>\<open>fetch(url, config)\<close>.\<close>

record request =
  url :: string
  config :: RequestInit

text \<open>
  A response. \<^verbatim>\<open>response.json()\<close> is read at two types: on a response that is not ok
  the code reads it as an untyped error document (\<open>errorData\<close>, \<open>None\<close> when the body
  does not parse); on an ok response it is returned at the type \<open>'a\<close> the caller declares
  (\<open>payload\<close>, \<open>Inl m\<close> when parsing throws an error with message \<open>m\<close>). Only the member
  that matches \<open>ok\<close> is ever read.
\<close>

record 'a response =
  status :: nat
  statusText :: string
  errorData :: "json option"
  payload :: "string + 'a"

definition ok :: "('a, 'b) response_scheme \<Rightarrow> bool" where
  "ok r = (200 \<le> response.status r \<and> response.status r \<le> 299)"

datatype 'a fetch_outcome = Rejected exn | Responded "'a response"

text \<open>
  The network seen from the client: the outcome of the \<open>n\<close>-th call of \<^verbatim>\<open>fetch\<close> for the
  request it sends. The calls made so far are kept in a log, oldest first.
\<close>

type_synonym 'a endpoint = "nat \<Rightarrow> request \<Rightarrow> 'a fetch_outcome"

definition fetch :: "'a endpoint \<Rightarrow> request \<Rightarrow> request list \<Rightarrow> 'a fetch_outcome \<times> request list" where
  "fetch net req log = (net (length log) req, log @ [req])"

text \<open>The merged headers: the content type, the bearer token when there is one, the caller's.\<close>

definition merged_headers :: "RequestInit \<Rightarrow> string option \<Rightarrow> (string \<times> string) list" where
  "merged_headers options token =
     [(''Content-Type'', ''application/json'')]
     @ (if truthy_string token then [(''Authorization'', ''Bearer '' @ the token)] else [])
     @ (case headers options of None \<Rightarrow> [] | Some hs \<Rightarrow> hs)"

text \<open>\<^verbatim>\<open>{ headers: {...}, ...options }\<close>: a \<open>headers\<close> member of \<open>options\<close> replaces the merged one.\<close>

definition build_config :: "RequestInit \<Rightarrow> string option \<Rightarrow> RequestInit" where
  "build_config options token =
     options\<lparr>headers := (case headers options of
                            None \<Rightarrow> Some (merged_headers options token)
                          | Some hs \<Rightarrow> Some hs)\<rparr>"

text \<open>The \<^verbatim>\<open>try\<close> block of \<^verbatim>\<open>apiRequest\<close>, before the \<^verbatim>\<open>catch\<close>.\<close>

definition error_of_response :: "runtime \<Rightarrow> ('a, 'b) response_scheme \<Rightarrow> failure" where
  "error_of_response rt r =
     (let errorData = (case response.errorData r of None \<Rightarrow> JObj [] | Some v \<Rightarrow> v) in
      case get_property rt errorData ''message'' of
        Inl e \<Rightarrow> Raw e
      | Inr m \<Rightarrow>
         (let text = (case m of
                        Some v \<Rightarrow> if truthy v then (case v of JStr s \<Rightarrow> Inr s | _ \<Rightarrow> ToString rt v)
                                  else Inr (''HTTP '' @ decimal (response.status r) @ '': '' @ statusText r)
                      | None \<Rightarrow> Inr (''HTTP '' @ decimal (response.status r) @ '': '' @ statusText r))
          in case get_property rt errorData ''code'' of
               Inl e \<Rightarrow> Raw e
             | Inr c \<Rightarrow>
                (case text of
                   Inl e \<Rightarrow> Raw e
                 | Inr msg \<Rightarrow> Api \<lparr>message = msg, status = Some (response.status r), code = c\<rparr>)))"

definition apiRequest_try ::
  "runtime \<Rightarrow> 'a endpoint \<Rightarrow> string \<Rightarrow> RequestInit \<Rightarrow> string option \<Rightarrow> request list
     \<Rightarrow> (failure + 'a) \<times> request list" where
  "apiRequest_try rt net endpoint options token log =
     (case fetch net \<lparr>url = API_BASE_URL rt @ endpoint, config = build_config options token\<rparr> log of
        (Rejected e, log') \<Rightarrow> (Inl (Raw e), log')
      | (Responded r, log') \<Rightarrow>
          if \<not> ok r then (Inl (error_of_response rt r), log')
          else (case payload r of
                  Inl m \<Rightarrow> (Inl (Raw (Error m)), log')
                | Inr v \<Rightarrow> (Inr v, log')))"

definition apiRequest ::
  "runtime \<Rightarrow> 'a endpoint \<Rightarrow> string \<Rightarrow> RequestInit \<Rightarrow> string option \<Rightarrow> request list
     \<Rightarrow> (ApiError + 'a) \<times> request list" where
  "apiRequest rt net endpoint options token log =
     (case apiRequest_try rt net endpoint options token log of
        (Inl (Api e), log') \<Rightarrow> (Inl e, log')
      | (Inl (Raw (Error m)), log') \<Rightarrow> (Inl \<lparr>message = m, status = None, code = None\<rparr>, log')
      | (Inl (Raw NonError), log') \<Rightarrow>
          (Inl \<lparr>message = ''Network error occurred'', status = None, code = None\<rparr>, log')
      | (Inr v, log') \<Rightarrow> (Inr v, log'))"


section \<open>Uploads and the job lifecycle client\<close>

record UploadInitResponse =
  upload_url :: string
  form_fields :: "(string \<times> string) list"
  s3_key :: string
  expires_at :: string
  max_file_size_mb :: nat

text \<open>
  Modelled from the spec: the declaration of \<^verbatim>\<open>AnalysisJob\<close> (\<^verbatim>\<open>@/types/api\<close>) is not among the
  sources. The spec's data model gives it an opaque string identifier and a status that
  is one of pending, processing, completed, failed or any other string.
\<close>

record AnalysisJob =
  job_id :: string
  status :: string

record network =
  uploads_init :: "UploadInitResponse endpoint"
  storage :: "unit endpoint"
  analyses :: "AnalysisJob endpoint"

record UploadedKeys =
  baseline_s3_key :: string
  renewal_s3_key :: string

definition init_options :: "File \<Rightarrow> RequestInit" where
  "init_options file =
     \<lparr>http_method = Some ''POST'', headers = None,
      body = Some (Stringified (JObj [(''file_type'', JStr ''application/pdf''),
                                      (''filename'', JStr (name file))]))\<rparr>"

text \<open>The form sent to storage: the destination's fields in order, then the file.\<close>

definition form_data :: "UploadInitResponse \<Rightarrow> File \<Rightarrow> request_body" where
  "form_data init file = FormData (map (\<lambda>(k, v). (k, Field v)) (form_fields init) @ [(''file'', Blob file)])"

definition storage_request :: "UploadInitResponse \<Rightarrow> File \<Rightarrow> request" where
  "storage_request init file =
     \<lparr>url = upload_url init,
      config = \<lparr>http_method = Some ''POST'', headers = None, body = Some (form_data init file)\<rparr>\<rparr>"

text \<open>
  \<^verbatim>\<open>analysisApi.uploadFiles\<close>. The two init requests go through \<^verbatim>\<open>apiRequest\<close>; the two
  transfers call \<^verbatim>\<open>fetch\<close> directly, so a rejected transfer is thrown as it is.
\<close>

definition uploadFiles ::
  "runtime \<Rightarrow> network \<Rightarrow> File \<Rightarrow> File \<Rightarrow> string option \<Rightarrow> request list
     \<Rightarrow> (failure + UploadedKeys) \<times> request list" where
  "uploadFiles rt net baselineFile renewalFile token log =
     (case apiRequest rt (uploads_init net) ''/uploads/init'' (init_options baselineFile) token log of
        (Inl e, log1) \<Rightarrow> (Inl (Api e), log1)
      | (Inr baselineInit, log1) \<Rightarrow>
     (case fetch (storage net) (storage_request baselineInit baselineFile) log1 of
        (Rejected x, log2) \<Rightarrow> (Inl (Raw x), log2)
      | (Responded baselineS3Response, log2) \<Rightarrow>
     if \<not> ok baselineS3Response
     then (Inl (Api \<lparr>message = ''Failed to upload baseline file to S3'',
                      status = Some (response.status baselineS3Response), code = None\<rparr>), log2)
     else
     (case apiRequest rt (uploads_init net) ''/uploads/init'' (init_options renewalFile) token log2 of
        (Inl e, log3) \<Rightarrow> (Inl (Api e), log3)
      | (Inr renewalInit, log3) \<Rightarrow>
     (case fetch (storage net) (storage_request renewalInit renewalFile) log3 of
        (Rejected x, log4) \<Rightarrow> (Inl (Raw x), log4)
      | (Responded renewalS3Response, log4) \<Rightarrow>
     if \<not> ok renewalS3Response
     then (Inl (Api \<lparr>message = ''Failed to upload renewal file to S3'',
                      status = Some (response.status renewalS3Response), code = None\<rparr>), log4)
     else (Inr \<lparr>baseline_s3_key = s3_key baselineInit, renewal_s3_key = s3_key renewalInit\<rparr>, log4)))))"

record job_metadata =
  company_name :: "string option"
  policy_type :: "string option"

text \<open>A member whose value is \<^verbatim>\<open>undefined\<close> is left out by \<^verbatim>\<open>JSON.stringify\<close>.\<close>

definition optional_member :: "string \<Rightarrow> string option \<Rightarrow> (string \<times> json) list" where
  "optional_member k v = (case v of None \<Rightarrow> [] | Some s \<Rightarrow> [(k, JStr s)])"

definition createAnalysis ::
  "runtime \<Rightarrow> network \<Rightarrow> string \<Rightarrow> string \<Rightarrow> job_metadata option \<Rightarrow> string option \<Rightarrow> request list
     \<Rightarrow> (ApiError + AnalysisJob) \<times> request list" where
  "createAnalysis rt net baseline_key renewal_key metadata token log =
     apiRequest rt (analyses net) ''/analyses''
       \<lparr>http_method = Some ''POST'', headers = None,
        body = Some (Stringified (JObj
          ([(''baseline_s3_key'', JStr baseline_key), (''renewal_s3_key'', JStr renewal_key)]
           @ optional_member ''metadata_company_name'' (Option.bind metadata company_name)
           @ optional_member ''metadata_policy_type'' (Option.bind metadata policy_type))))\<rparr>
       token log"

definition getAnalysisStatus ::
  "runtime \<Rightarrow> network \<Rightarrow> string \<Rightarrow> string option \<Rightarrow> request list
     \<Rightarrow> (ApiError + AnalysisJob) \<times> request list" where
  "getAnalysisStatus rt net jobId token log =
     apiRequest rt (analyses net) (''/analyses/'' @ jobId @ ''/status'')
       \<lparr>http_method = None, headers = None, body = None\<rparr> token log"

section \<open>The query cache and the hooks\<close>

text \<open>
  A query key is an array of strings; an element is \<open>None\<close> where a caller passes
  \<^verbatim>\<open>undefined\<close> for an identifier.
\<close>

type_synonym query_key = "string option list"

definition ANALYSIS_QUERY_KEYS_all :: query_key where
  "ANALYSIS_QUERY_KEYS_all = [Some ''analysis'']"

definition ANALYSIS_QUERY_KEYS_status :: "string option \<Rightarrow> query_key" where
  "ANALYSIS_QUERY_KEYS_status jobId = ANALYSIS_QUERY_KEYS_all @ [Some ''status'', jobId]"

definition ANALYSIS_QUERY_KEYS_result :: "string option \<Rightarrow> query_key" where
  "ANALYSIS_QUERY_KEYS_result jobId = ANALYSIS_QUERY_KEYS_all @ [Some ''result'', jobId]"

definition ANALYSIS_QUERY_KEYS_history :: query_key where
  "ANALYSIS_QUERY_KEYS_history = ANALYSIS_QUERY_KEYS_all @ [Some ''history'']"

text \<open>
  The state the data-fetching library keeps for one query: the value of the last
  successful fetch, the error of the last failed one, whether a fetch is in flight, and
  whether the value has been marked stale.
\<close>

datatype fetch_status = Idle | Fetching

record 'd query_state =
  data :: "'d option"
  error :: "ApiError option"
  fetchStatus :: fetch_status
  isInvalidated :: bool

datatype cached = JobData AnalysisJob | HistoryData "AnalysisJob list"

type_synonym query_cache = "query_key \<rightharpoonup> cached query_state"

text \<open>
  The library is an external collaborator; the three cache operations below follow its
  documented behaviour. \<^verbatim>\<open>setQueryData\<close> stores a value under a key as a fresh successful
  result; \<^verbatim>\<open>getQueryData\<close> reads it without fetching; \<^verbatim>\<open>invalidateQueries\<close> marks as stale
  every cached query whose key starts with the given key.
\<close>

definition setQueryData :: "query_key \<Rightarrow> cached \<Rightarrow> query_cache \<Rightarrow> query_cache" where
  "setQueryData k v cache =
     cache(k \<mapsto> \<lparr>data = Some v, error = None,
                  fetchStatus = (case cache k of None \<Rightarrow> Idle | Some q \<Rightarrow> fetchStatus q),
                  isInvalidated = False\<rparr>)"


definition invalidateQueries :: "query_key \<Rightarrow> query_cache \<Rightarrow> query_cache" where
  "invalidateQueries k cache =
     (\<lambda>k'. case cache k' of
              None \<Rightarrow> None
            | Some q \<Rightarrow> Some (if prefix k k' then q\<lparr>isInvalidated := True\<rparr> else q))"

subsection \<open>useCreateAnalysis\<close>

text \<open>\<open>token\<close> is what \<^verbatim>\<open>await getToken()\<close> gave.\<close>

definition mutationFn ::
  "runtime \<Rightarrow> network \<Rightarrow> string option \<Rightarrow> File \<Rightarrow> File \<Rightarrow> job_metadata option \<Rightarrow> request list
     \<Rightarrow> (failure + AnalysisJob) \<times> request list" where
  "mutationFn rt net token baselineFile renewalFile metadata log =
     (case uploadFiles rt net baselineFile renewalFile token log of
        (Inl f, log') \<Rightarrow> (Inl f, log')
      | (Inr keys, log') \<Rightarrow>
          (case createAnalysis rt net (baseline_s3_key keys) (renewal_s3_key keys) metadata token log' of
             (Inl e, log'') \<Rightarrow> (Inl (Api e), log'')
           | (Inr job, log'') \<Rightarrow> (Inr job, log'')))"

definition onSuccess :: "AnalysisJob \<Rightarrow> query_cache \<Rightarrow> query_cache" where
  "onSuccess job cache =
     invalidateQueries ANALYSIS_QUERY_KEYS_history
       (setQueryData (ANALYSIS_QUERY_KEYS_status (Some (job_id job))) (JobData job) cache)"


subsection \<open>useAnalysisStatus\<close>

text \<open>The options the hook passes to \<^verbatim>\<open>useQuery\<close>; the two callbacks follow as functions.\<close>

record query_options =
  queryKey :: query_key
  enabled :: bool
  refetchIntervalInBackground :: bool

definition useAnalysisStatus :: "string option \<Rightarrow> bool \<Rightarrow> query_options" where
  "useAnalysisStatus jobId enabled_arg =
     \<lparr>queryKey = ANALYSIS_QUERY_KEYS_status jobId,
      enabled = (enabled_arg \<and> truthy_string jobId),
      refetchIntervalInBackground = True\<rparr>"

text \<open>
  The \<^verbatim>\<open>refetchInterval\<close> callback: \<open>None\<close> is \<^verbatim>\<open>false\<close>, \<open>Some ms\<close> a delay in
  milliseconds. \<^verbatim>\<open>query.state.data?.status\<close> is \<^verbatim>\<open>undefined\<close> when there is no data yet.
\<close>

definition refetchInterval :: "(AnalysisJob, 'm) query_state_scheme \<Rightarrow> nat option" where
  "refetchInterval query =
     (let status = map_option AnalysisJob.status (data query) in
      if status = Some ''completed'' \<or> status = Some ''failed'' then None else Some 3000)"

text \<open>
  The library's observer, as far as the hook relies on it. A query that is not enabled is
  never fetched by the observer, on mount or on a timer. An enabled one is fetched on
  mount; when a fetch settles the state is updated (a failure keeps the data of the last
  success) and the callback is asked: \<^verbatim>\<open>false\<close> schedules nothing, a number schedules one
  fetch after that delay. \<open>outcomes\<close> are the results of the fetches observed, in order;
  \<open>observe\<close> returns the delay before each fetch issued and the final state.
\<close>

definition scheduled_fetches :: "(AnalysisJob, 'm) query_state_scheme \<Rightarrow> nat list" where
  "scheduled_fetches query = (case refetchInterval query of None \<Rightarrow> [] | Some ms \<Rightarrow> [ms])"

definition settle ::
  "AnalysisJob query_state \<Rightarrow> ApiError + AnalysisJob \<Rightarrow> AnalysisJob query_state" where
  "settle query outcome =
     (case outcome of
        Inr job \<Rightarrow> query\<lparr>data := Some job, error := None, fetchStatus := Idle, isInvalidated := False\<rparr>
      | Inl e \<Rightarrow> query\<lparr>error := Some e, fetchStatus := Idle\<rparr>)"

fun poll ::
  "nat \<Rightarrow> AnalysisJob query_state \<Rightarrow> (ApiError + AnalysisJob) list
     \<Rightarrow> nat list \<times> AnalysisJob query_state" where
  "poll delay query [] = ([], query)"
| "poll delay query (outcome # outcomes) =
     (case scheduled_fetches (settle query outcome) of
        [] \<Rightarrow> ([delay], settle query outcome)
      | next_delay # _ \<Rightarrow>
          (case poll next_delay (settle query outcome) outcomes of
             (delays, final) \<Rightarrow> (delay # delays, final)))"

definition observe ::
  "query_options \<Rightarrow> AnalysisJob query_state \<Rightarrow> (ApiError + AnalysisJob) list
     \<Rightarrow> nat list \<times> AnalysisJob query_state" where
  "observe options query outcomes = (if enabled options then poll 0 query outcomes else ([], query))"

section \<open>The onboarding wizard\<close>

subsection \<open>Questions and answers\<close>

datatype question_kind = TextQ | BooleanQ

record Question =
  qid :: string
  icon :: string
  title :: string
  subtitle :: string
  qtype :: question_kind
  placeholder :: "string option"

definition QUESTIONS :: "Question list" where
  "QUESTIONS =
    [\<lparr>qid = ''location'', icon = ''MapPin'',
      title = ''Where is your business located?'',
      subtitle = ''This helps us assess location-specific risks like property and premise liability.'',
      qtype = TextQ, placeholder = Some ''e.g., New York, NY''\<rparr>,
     \<lparr>qid = ''climate'', icon = ''Thermometer'',
      title = ''Does your inventory require refrigeration or climate control?'',
      subtitle = ''Climate-sensitive inventory may need specific coverage for temperature-related losses.'',
      qtype = BooleanQ, placeholder = None\<rparr>,
     \<lparr>qid = ''events'', icon = ''Briefcase'',
      title = ''Do clients pay you for professional advice, designs, or technical services?'',
      subtitle = ''Professional services carry unique liability risks that standard policies may not cover.'',
      qtype = BooleanQ, placeholder = None\<rparr>,
     \<lparr>qid = ''errorsAndOmissions'', icon = ''Shield'',
      title = ''Do you currently have Errors & Omissions (E&O) coverage?'',
      subtitle = ''E&O insurance protects against claims of professional mistakes or negligent advice.'',
      qtype = BooleanQ, placeholder = None\<rparr>,
     \<lparr>qid = ''payments'', icon = ''CreditCard'',
      title = ''Do you handle customer data and payments digitally?'',
      subtitle = ''Digital transactions create cyber exposure that may require specialized coverage.'',
      qtype = BooleanQ, placeholder = None\<rparr>]"

text \<open>
  Text typed by the user is a JavaScript string, a sequence of 16-bit code units:
  \<^verbatim>\<open>trim\<close> inspects them. It strips the white space and line terminators of ECMAScript
  from both ends.
\<close>

type_synonym js_string = "16 word list"

definition is_white_space :: "16 word \<Rightarrow> bool" where
  "is_white_space c =
     (c \<in> set [0x0009, 0x000A, 0x000B, 0x000C, 0x000D, 0x0020, 0x00A0, 0x1680,
                0x2028, 0x2029, 0x202F, 0x205F, 0x3000, 0xFEFF]
      \<or> (0x2000 \<le> c \<and> c \<le> 0x200A))"

definition trim :: "js_string \<Rightarrow> js_string" where
  "trim s = rev (dropWhile is_white_space (rev (dropWhile is_white_space s)))"

text \<open>\<^verbatim>\<open>Record<string, string | boolean>\<close>; an absent member reads as \<^verbatim>\<open>undefined\<close> (\<open>None\<close>).\<close>

datatype answer = AString js_string | ABool bool

type_synonym answers = "string \<rightharpoonup> answer"

subsection \<open>The identity provider's user object\<close>

text \<open>
  \<open>unsafeMetadata\<close> holds arbitrary JSON; the wizard stores its answer map there, kept
  here as the map it is.
\<close>

datatype meta_value = MJson json | MAnswers answers

type_synonym metadata = "string \<rightharpoonup> meta_value"

record user =
  unsafeMetadata :: "metadata option"

fun truthy_meta :: "meta_value option \<Rightarrow> bool" where
  "truthy_meta None = False"
| "truthy_meta (Some (MJson v)) = truthy v"
| "truthy_meta (Some (MAnswers a)) = True"

text \<open>\<^verbatim>\<open>user?.unsafeMetadata?.hasCompletedOnboarding\<close>\<close>

definition hasCompletedOnboarding :: "user option \<Rightarrow> meta_value option" where
  "hasCompletedOnboarding u =
     (case u of
        None \<Rightarrow> None
      | Some usr \<Rightarrow> (case unsafeMetadata usr of None \<Rightarrow> None | Some m \<Rightarrow> m ''hasCompletedOnboarding''))"

text \<open>What the component does besides rendering, in the order it does it.\<close>

datatype effect =
  UserUpdate metadata
| RouterPush string
| ConsoleError string exn

subsection \<open>useOnboardingGuard\<close>

record guard_result =
  isOnboarded :: bool
  isLoading :: bool

definition useOnboardingGuard :: "bool \<Rightarrow> user option \<Rightarrow> guard_result \<times> effect list" where
  "useOnboardingGuard isLoaded u =
     (let hasCompleted = (isLoaded \<and> hasCompletedOnboarding u = Some (MJson (JBool True)));
          needsOnboarding = (isLoaded \<and> u \<noteq> None \<and> \<not> truthy_meta (hasCompletedOnboarding u))
      in (\<lparr>isOnboarded = hasCompleted, isLoading = (\<not> isLoaded \<or> u = None \<or> needsOnboarding)\<rparr>,
          if needsOnboarding then [RouterPush ''/onboarding''] else []))"

subsection \<open>OnboardingPage\<close>

record auth =
  isLoaded :: bool
  userId :: "string option"

record wizard =
  currentStep :: nat
  answers :: answers
  isSubmitting :: bool

definition initial :: wizard where
  "initial = \<lparr>currentStep = 0, answers = Map.empty, isSubmitting = False\<rparr>"

definition alreadyCompleted :: "auth \<Rightarrow> user option \<Rightarrow> bool" where
  "alreadyCompleted a u = (isLoaded a \<and> truthy_meta (hasCompletedOnboarding u))"

text \<open>\<^verbatim>\<open>QUESTIONS[currentStep]\<close>: \<^verbatim>\<open>undefined\<close> (\<open>None\<close>) past the end of the array.\<close>

definition question :: "wizard \<Rightarrow> Question option" where
  "question st = (if currentStep st < length QUESTIONS then Some (QUESTIONS ! currentStep st) else None)"

definition isLastStep :: "wizard \<Rightarrow> bool" where
  "isLastStep st = (currentStep st = length QUESTIONS - 1)"

definition canProceed :: "Question \<Rightarrow> answer option \<Rightarrow> bool" where
  "canProceed q currentAnswer =
     (if qtype q = TextQ
      then (case currentAnswer of Some (AString s) \<Rightarrow> 0 < length (trim s) | _ \<Rightarrow> False)
      else currentAnswer \<noteq> None)"

text \<open>
  \<^verbatim>\<open>handleNext\<close> up to its \<^verbatim>\<open>await\<close>: on the last step it raises the submitting flag and
  calls \<^verbatim>\<open>user?.update\<close> (nothing is called when there is no user object); on any other
  step it moves one step forward.
\<close>

definition submitted_metadata :: "user \<Rightarrow> answers \<Rightarrow> metadata" where
  "submitted_metadata usr ans =
     (case unsafeMetadata usr of None \<Rightarrow> Map.empty | Some m \<Rightarrow> m)
       (''hasCompletedOnboarding'' \<mapsto> MJson (JBool True), ''onboardingAnswers'' \<mapsto> MAnswers ans)"

definition handleNext_begin :: "user option \<Rightarrow> wizard \<Rightarrow> wizard \<times> effect list" where
  "handleNext_begin u st =
     (if isLastStep st
      then (st\<lparr>isSubmitting := True\<rparr>,
            case u of None \<Rightarrow> [] | Some usr \<Rightarrow> [UserUpdate (submitted_metadata usr (answers st))])
      else (st\<lparr>currentStep := currentStep st + 1\<rparr>, []))"

text \<open>
  The rest of \<^verbatim>\<open>handleNext\<close> once the awaited call has settled: \<open>None\<close> when it resolved,
  \<open>Some e\<close> when it rejected with \<open>e\<close>.
\<close>

definition handleNext_settle :: "exn option \<Rightarrow> wizard \<Rightarrow> wizard \<times> effect list" where
  "handleNext_settle outcome st =
     (case outcome of
        None \<Rightarrow> (st, [RouterPush ''/dashboard''])
      | Some e \<Rightarrow> (st\<lparr>isSubmitting := False\<rparr>, [ConsoleError ''Failed to save onboarding data:'' e]))"

text \<open>
  \<^verbatim>\<open>handleNext\<close> from call to return, with no other event in between. \<open>provider\<close> is the
  identity provider: whether it accepts the written metadata or rejects it with an error.
\<close>

definition handleNext :: "user option \<Rightarrow> (metadata \<Rightarrow> exn option) \<Rightarrow> wizard \<Rightarrow> wizard \<times> effect list" where
  "handleNext u provider st =
     (if isLastStep st
      then (let outcome = (case u of
                             None \<Rightarrow> None
                           | Some usr \<Rightarrow> provider (submitted_metadata usr (answers st)));
                settled = handleNext_settle outcome (fst (handleNext_begin u st))
            in (fst settled, snd (handleNext_begin u st) @ snd settled))
      else handleNext_begin u st)"

definition handleBack :: "wizard \<Rightarrow> wizard" where
  "handleBack st = (if 0 < currentStep st then st\<lparr>currentStep := currentStep st - 1\<rparr> else st)"

definition setAnswer :: "Question \<Rightarrow> answer \<Rightarrow> wizard \<Rightarrow> wizard" where
  "setAnswer q v st = st\<lparr>answers := (answers st)(qid q \<mapsto> v)\<rparr>"

text \<open>What the page shows: the spinner, or the card of the current question with its two buttons.\<close>

record card =
  shown :: Question
  currentAnswer :: "answer option"
  back_disabled :: bool
  next_disabled :: bool
  next_label :: string

datatype view = Spinner | Card card | RenderError

definition render :: "auth \<Rightarrow> user option \<Rightarrow> wizard \<Rightarrow> view \<times> effect list" where
  "render a u st =
     (if \<not> isLoaded a \<or> \<not> truthy_string (userId a) \<or> alreadyCompleted a u then Spinner
      else (case question st of
              None \<Rightarrow> RenderError
            | Some q \<Rightarrow>
                Card \<lparr>shown = q, currentAnswer = answers st (qid q),
                      back_disabled = (currentStep st = 0),
                      next_disabled = (\<not> canProceed q (answers st (qid q)) \<or> isSubmitting st),
                      next_label = (if isSubmitting st then ''Saving...''
                                    else if isLastStep st then ''Get Started'' else ''Next'')\<rparr>),
      if alreadyCompleted a u then [RouterPush ''/dashboard''] else [])"

subsection \<open>The wizard as a state machine\<close>

text \<open>
  The events the rendered card can receive: typing into the text input, the two answer
  buttons, the Next button, Enter in the text input, the Back button, and the rejection
  of a pending write. \<open>fire\<close> is \<open>None\<close> when the card does not offer the event.
\<close>

datatype event =
  Change js_string
| ClickYes
| ClickNo
| ClickNext
| PressEnter
| ClickBack
| UpdateRejected exn

fun fire :: "user option \<Rightarrow> wizard \<Rightarrow> event \<Rightarrow> wizard option" where
  "fire u st ev =
     (case question st of
        None \<Rightarrow> None
      | Some q \<Rightarrow>
         (case ev of
            Change s \<Rightarrow> if qtype q = TextQ then Some (setAnswer q (AString s) st) else None
          | ClickYes \<Rightarrow> if qtype q = TextQ then None else Some (setAnswer q (ABool True) st)
          | ClickNo \<Rightarrow> if qtype q = TextQ then None else Some (setAnswer q (ABool False) st)
          | ClickNext \<Rightarrow>
              if \<not> canProceed q (answers st (qid q)) \<or> isSubmitting st then None
              else Some (fst (handleNext_begin u st))
          | PressEnter \<Rightarrow>
              if qtype q = TextQ \<and> canProceed q (answers st (qid q))
              then Some (fst (handleNext_begin u st)) else None
          | ClickBack \<Rightarrow> if currentStep st = 0 then None else Some (handleBack st)
          | UpdateRejected e \<Rightarrow>
              if isSubmitting st then Some (fst (handleNext_settle (Some e) st)) else None))"

declare fire.simps [simp del]

inductive reachable :: "wizard \<Rightarrow> bool" where
  start: "reachable initial"
| after: "reachable st \<Longrightarrow> fire u st ev = Some st' \<Longrightarrow> reachable st'"

text \<open>
  The type constraint of a question as the specification words it: a text answer is a
  string with a character left after trimming white space, a yes/no answer is a defined
  boolean.
\<close>

fun satisfies_type_constraint :: "question_kind \<Rightarrow> answer option \<Rightarrow> bool" where
  "satisfies_type_constraint TextQ (Some (AString s)) = list_ex (\<lambda>c. \<not> is_white_space c) s"
| "satisfies_type_constraint BooleanQ (Some (ABool b)) = True"
| "satisfies_type_constraint k a = False"

section \<open>Notions used in the statements\<close>

text \<open>The request \<^verbatim>\<open>apiRequest\<close> sends to \<^verbatim>\<open>/uploads/init\<close> for a file.\<close>

definition init_request :: "runtime \<Rightarrow> File \<Rightarrow> string option \<Rightarrow> request" where
  "init_request rt file token =
     \<lparr>url = API_BASE_URL rt @ ''/uploads/init'', config = build_config (init_options file) token\<rparr>"

text \<open>
  A create-analysis request on the wire: sent to \<^verbatim>\<open>/analyses\<close> under the base URL with a
  JSON body. (A storage transfer carries a form, an init request goes to another path.)
\<close>

definition is_create_analysis_request :: "runtime \<Rightarrow> request \<Rightarrow> bool" where
  "is_create_analysis_request rt req =
     (url req = API_BASE_URL rt @ ''/analyses''
      \<and> (case body (config req) of Some (Stringified doc) \<Rightarrow> True | _ \<Rightarrow> False))"

text \<open>
  What the network answers at each step of an upload that started with the log \<open>log\<close>:
  to the baseline init request (the first request), to the baseline transfer to the
  destination \<open>init\<close> (the second), to the renewal init request (the third, after the
  first two) and to the renewal transfer (the fourth). An init answer is what
  \<^verbatim>\<open>apiRequest\<close> makes of the response: the destination, or the \<^verbatim>\<open>ApiError\<close> it throws.
\<close>

definition baseline_init_answer ::
  "runtime \<Rightarrow> network \<Rightarrow> File \<Rightarrow> string option \<Rightarrow> request list \<Rightarrow> ApiError + UploadInitResponse" where
  "baseline_init_answer rt net baselineFile token log =
     fst (apiRequest rt (uploads_init net) ''/uploads/init'' (init_options baselineFile) token log)"

definition baseline_transfer_answer ::
  "network \<Rightarrow> request list \<Rightarrow> UploadInitResponse \<Rightarrow> File \<Rightarrow> unit fetch_outcome" where
  "baseline_transfer_answer net log init baselineFile =
     storage net (length log + 1) (storage_request init baselineFile)"

definition renewal_init_answer ::
  "runtime \<Rightarrow> network \<Rightarrow> File \<Rightarrow> File \<Rightarrow> string option \<Rightarrow> request list \<Rightarrow> UploadInitResponse
     \<Rightarrow> ApiError + UploadInitResponse" where
  "renewal_init_answer rt net baselineFile renewalFile token log init =
     fst (apiRequest rt (uploads_init net) ''/uploads/init'' (init_options renewalFile) token
            (log @ [init_request rt baselineFile token, storage_request init baselineFile]))"

definition renewal_transfer_answer ::
  "network \<Rightarrow> request list \<Rightarrow> UploadInitResponse \<Rightarrow> File \<Rightarrow> unit fetch_outcome" where
  "renewal_transfer_answer net log init renewalFile =
     storage net (length log + 3) (storage_request init renewalFile)"

text \<open>
  The baseline file is fully uploaded: its init request, the first of the operation,
  returned the destination \<open>init\<close>, and the storage answered the transfer to that
  destination, the second request, with a 2xx status.
\<close>

definition baseline_uploaded ::
  "runtime \<Rightarrow> network \<Rightarrow> File \<Rightarrow> string option \<Rightarrow> request list \<Rightarrow> UploadInitResponse \<Rightarrow> bool" where
  "baseline_uploaded rt net baselineFile token log init =
     (fst (apiRequest rt (uploads_init net) ''/uploads/init'' (init_options baselineFile) token log) = Inr init
      \<and> (case storage net (length log + 1) (storage_request init baselineFile) of
            Responded resp \<Rightarrow> ok resp
          | Rejected x \<Rightarrow> False))"

text \<open>
  The invariant behind the wizard's answers: what is stored under a question's identifier
  is a string for a text question and a boolean for a yes/no question.
\<close>

fun answer_fits :: "question_kind \<Rightarrow> answer option \<Rightarrow> bool" where
  "answer_fits k None = True"
| "answer_fits TextQ (Some (AString s)) = True"
| "answer_fits BooleanQ (Some (ABool b)) = True"
| "answer_fits k a = False"

definition well_typed :: "wizard \<Rightarrow> bool" where
  "well_typed st = (\<forall>q \<in> set QUESTIONS. answer_fits (qtype q) (answers st (qid q)))"

text \<open>A sequence of events fired one after the other; \<open>None\<close> when one is not offered.\<close>

fun run :: "user option \<Rightarrow> wizard \<Rightarrow> event list \<Rightarrow> wizard option" where
  "run u st [] = Some st"
| "run u st (ev # evs) = (case fire u st ev of None \<Rightarrow> None | Some st' \<Rightarrow> run u st' evs)"

text \<open>The effects that are writes to the identity provider.\<close>

fun is_update :: "effect \<Rightarrow> bool" where
  "is_update (UserUpdate m) = True"
| "is_update e = False"

section \<open>Concrete inputs\<close>

text \<open>A runtime, two files, and networks that accept or refuse them.\<close>

definition example_runtime :: runtime where
  "example_runtime =
     \<lparr>NEXT_PUBLIC_API_URL = None, ToString = (\<lambda>v. Inr ''[object Object]''),
      null_property_message = (\<lambda>p. ''Cannot read properties of null'')\<rparr>"

definition baseline_pdf :: File where
  "baseline_pdf = \<lparr>name = ''baseline.pdf'', content = ''A''\<rparr>"

definition renewal_pdf :: File where
  "renewal_pdf = \<lparr>name = ''renewal.pdf'', content = ''B''\<rparr>"

definition example_destination :: UploadInitResponse where
  "example_destination =
     \<lparr>upload_url = ''https://storage.example/upload'', form_fields = [(''key'', ''uploads/doc'')],
      s3_key = ''uploads/doc'', expires_at = ''2030-01-01T00:00:00Z'', max_file_size_mb = 10\<rparr>"

definition example_job :: AnalysisJob where
  "example_job = \<lparr>job_id = ''job-1'', status = ''pending''\<rparr>"

definition respond :: "nat \<Rightarrow> string \<Rightarrow> string + 'a \<Rightarrow> 'a fetch_outcome" where
  "respond c t p = Responded \<lparr>response.status = c, statusText = t, errorData = None, payload = p\<rparr>"

definition net_ok :: network where
  "net_ok =
     \<lparr>uploads_init = (\<lambda>n req. respond 200 ''OK'' (Inr example_destination)),
      storage = (\<lambda>n req. respond 204 ''No Content'' (Inl [])),
      analyses = (\<lambda>n req. respond 200 ''OK'' (Inr example_job))\<rparr>"

definition net_storage_forbidden :: network where
  "net_storage_forbidden = net_ok\<lparr>storage := (\<lambda>n req. respond 403 ''Forbidden'' (Inl []))\<rparr>"

text \<open>
  A storage that cannot be reached, and one that accepts the first transfer (the second
  request) and refuses the next.
\<close>

definition net_renewal_storage_forbidden :: network where
  "net_renewal_storage_forbidden =
     net_ok\<lparr>storage := (\<lambda>n req. if n = 1 then respond 204 ''No Content'' (Inl [])
                                   else respond 403 ''Forbidden'' (Inl []))\<rparr>"

definition net_storage_unreachable :: network where
  "net_storage_unreachable = net_ok\<lparr>storage := (\<lambda>n req. Rejected (Error ''Failed to fetch''))\<rparr>"

definition net_baseline_init_down :: network where
  "net_baseline_init_down =
     net_ok\<lparr>uploads_init := (\<lambda>n req. respond 500 ''Internal Server Error'' (Inl []))\<rparr>"

definition net_renewal_init_down :: network where
  "net_renewal_init_down =
     net_ok\<lparr>uploads_init := (\<lambda>n req. if n = 0 then respond 200 ''OK'' (Inr example_destination)
                                        else respond 500 ''Internal Server Error'' (Inl []))\<rparr>"




text \<open>A signed-in session, a user who has completed onboarding and one who has not.\<close>

definition example_auth :: auth where
  "example_auth = \<lparr>isLoaded = True, userId = Some ''user_1''\<rparr>"

definition onboarded_user :: user where
  "onboarded_user = \<lparr>unsafeMetadata = Some [''hasCompletedOnboarding'' \<mapsto> MJson (JBool True)]\<rparr>"

definition new_user :: user where
  "new_user = \<lparr>unsafeMetadata = Some [''plan'' \<mapsto> MJson (JStr ''pro'')]\<rparr>"

text \<open>The code units of \<open>NY\<close>.\<close>

definition new_york :: js_string where
  "new_york = [0x4E, 0x59]"

text \<open>Two states of the wizard: on the second question, and on the last one.\<close>

definition climate_no :: wizard where
  "climate_no =
     \<lparr>currentStep = 1,
      answers = [''location'' \<mapsto> AString new_york, ''climate'' \<mapsto> ABool False],
      isSubmitting = False\<rparr>"

definition last_step_state :: wizard where
  "last_step_state =
     \<lparr>currentStep = 4,
      answers = [''location'' \<mapsto> AString new_york, ''climate'' \<mapsto> ABool False,
                 ''events'' \<mapsto> ABool True, ''errorsAndOmissions'' \<mapsto> ABool False,
                 ''payments'' \<mapsto> ABool True],
      isSubmitting = False\<rparr>"

text \<open>The last step while the write is pending.\<close>

definition submitting_state :: wizard where
  "submitting_state = last_step_state\<lparr>isSubmitting := True\<rparr>"

text \<open>An identity provider that rejects every write, and one that accepts every write.\<close>

definition provider_down :: "metadata \<Rightarrow> exn option" where
  "provider_down m = Some (Error ''Network request failed'')"

definition provider_up :: "metadata \<Rightarrow> exn option" where
  "provider_up m = None"


section \<open>Properties of the HTTP wrapper and the hooks\<close>

text \<open>
  Claim C1. Whether the status poller schedules another fetch is decided by the
  \<^verbatim>\<open>refetchInterval\<close> callback from the \<open>data\<close> of the query state alone, that is from the
  job of the last successful fetch: a fetch in flight or a recorded error does not change
  the decision, a failed fetch leaves \<open>data\<close> as it was, a successful one replaces it. If
  the status of that job is \<open>completed\<close> or \<open>failed\<close> nothing is scheduled; for every
  other status, and when no job has been fetched yet, exactly one fetch is scheduled, 3000
  milliseconds (three seconds) later.
\<close>

theorem refetch_decision_reads_last_fetched_status:
  "scheduled_fetches query =
     (case data query of
        None \<Rightarrow> [3000]
      | Some job \<Rightarrow>
          if AnalysisJob.status job = ''completed'' \<or> AnalysisJob.status job = ''failed''
          then [] else [3000])
   \<and> scheduled_fetches (query\<lparr>fetchStatus := f, error := e\<rparr>) = scheduled_fetches query
   \<and> data (settle q (Inl err)) = data q
   \<and> data (settle q (Inr job')) = Some job'"
  by (auto simp: scheduled_fetches_def refetchInterval_def settle_def Let_def split: option.splits)

text \<open>
  Claim C8. With a missing (\<open>None\<close>) or empty job identifier the options the hook builds
  are not enabled, whatever the caller's own \<open>enabled\<close> argument, and the observer
  issues no fetch at all and leaves the query state as it found it: no error is produced.
\<close>

theorem no_job_id_disables_polling:
  "\<not> enabled (useAnalysisStatus None e)
   \<and> \<not> enabled (useAnalysisStatus (Some []) e)
   \<and> observe (useAnalysisStatus None e) query outcomes = ([], query)
   \<and> observe (useAnalysisStatus (Some []) e) query outcomes = ([], query)"
  by (simp add: useAnalysisStatus_def observe_def)

text \<open>
  What \<^verbatim>\<open>apiRequest\<close> makes of a failed request: a rejected \<^verbatim>\<open>fetch\<close> becomes an
  \<^verbatim>\<open>ApiError\<close> with a message and no status; a response outside 2xx whose body does not
  parse, or parses to an object with a non-empty string message, becomes an \<^verbatim>\<open>ApiError\<close>
  with the response's status.
\<close>

lemma apiRequest_transport_error:
  "fst (apiRequest rt (\<lambda>n req. Rejected x) endpoint options token log)
     = Inl \<lparr>message = (case x of Error m \<Rightarrow> m | NonError \<Rightarrow> ''Network error occurred''),
            status = None, code = None\<rparr>"
  by (cases x) (simp_all add: apiRequest_def apiRequest_try_def fetch_def)

lemma apiRequest_unparseable_error_body:
  assumes "\<not> ok r" and "errorData r = None"
  shows "fst (apiRequest rt (\<lambda>n req. Responded r) endpoint options token log)
           = Inl \<lparr>message = ''HTTP '' @ decimal (response.status r) @ '': '' @ statusText r,
                  status = Some (response.status r), code = None\<rparr>"
  using assms by (simp add: apiRequest_def apiRequest_try_def fetch_def error_of_response_def)

lemma apiRequest_error_object:
  assumes "\<not> ok r" and "errorData r = Some (JObj kvs)"
    and "map_of (rev kvs) ''message'' = Some (JStr m)" and "m \<noteq> []"
  shows "fst (apiRequest rt (\<lambda>n req. Responded r) endpoint options token log)
           = Inl \<lparr>message = m, status = Some (response.status r),
                  code = map_of (rev kvs) ''code''\<rparr>"
  using assms by (simp add: apiRequest_def apiRequest_try_def fetch_def error_of_response_def)

text \<open>
  Claim C7 says that every response outside 2xx yields an \<^verbatim>\<open>ApiError\<close> carrying the
  response's status. The code builds that error for every error body but one: when the
  body of the response is the JSON document \<^verbatim>\<open>null\<close>, reading \<^verbatim>\<open>errorData.message\<close> throws
  a \<^verbatim>\<open>TypeError\<close> inside the \<^verbatim>\<open>try\<close> block, and the \<^verbatim>\<open>catch\<close> turns it into an \<^verbatim>\<open>ApiError\<close>
  with the \<^verbatim>\<open>TypeError\<close>'s message and neither status nor code, as for a transport error.
\<close>

theorem null_error_body_loses_status:
  "fst (apiRequest rt
          (\<lambda>n req. Responded \<lparr>response.status = 500, statusText = ''Internal Server Error'',
                               errorData = Some JNull, payload = Inl []\<rparr>)
          endpoint options token log)
   = Inl \<lparr>message = null_property_message rt ''message'', status = None, code = None\<rparr>"
  by (simp add: apiRequest_def apiRequest_try_def fetch_def ok_def error_of_response_def)

lemma apiRequest_log:
  "snd (apiRequest rt net ep opts tok log)
     = log @ [\<lparr>url = API_BASE_URL rt @ ep, config = build_config opts tok\<rparr>]"
  by (simp add: apiRequest_def apiRequest_try_def fetch_def
           split: fetch_outcome.splits sum.splits failure.splits exn.splits)

lemma init_not_create: "\<not> is_create_analysis_request rt (init_request rt file token)"
  by (simp add: is_create_analysis_request_def init_request_def)

lemma storage_not_create: "\<not> is_create_analysis_request rt (storage_request init file)"
  by (simp add: is_create_analysis_request_def storage_request_def form_data_def)

lemma apiRequest_init_cases:
  obtains e where "apiRequest rt net ''/uploads/init'' (init_options file) tok log
                     = (Inl e, log @ [init_request rt file tok])"
  | v where "apiRequest rt net ''/uploads/init'' (init_options file) tok log
                     = (Inr v, log @ [init_request rt file tok])"
proof -
  have "snd (apiRequest rt net ''/uploads/init'' (init_options file) tok log) = log @ [init_request rt file tok]"
    by (simp add: apiRequest_log init_request_def)
  then show ?thesis
    using that by (cases "apiRequest rt net ''/uploads/init'' (init_options file) tok log"; cases "fst (apiRequest rt net ''/uploads/init'' (init_options file) tok log)") auto
qed

text \<open>
  The requests of \<^verbatim>\<open>uploadFiles\<close> in general: a prefix of baseline init, baseline
  transfer, renewal init, renewal transfer, going beyond the second only when the baseline
  file is fully uploaded.
\<close>

lemma uploadFiles_request_order:
  "\<exists>reqs i1 i2.
      snd (uploadFiles rt net b r token log) = log @ reqs
    \<and> prefix reqs [init_request rt b token, storage_request i1 b,
                    init_request rt r token, storage_request i2 r]
    \<and> (2 < length reqs \<longrightarrow> baseline_uploaded rt net b token log i1)
    \<and> (\<forall>f. fst (uploadFiles rt net b r token log) = Inl f \<longrightarrow>
           mutationFn rt net token b r md log = (Inl f, log @ reqs)
         \<and> filter (is_create_analysis_request rt) reqs = []
         \<and> (\<forall>resp. length reqs = 2
                \<and> storage net (length log + 1) (storage_request i1 b) = Responded resp \<longrightarrow>
               f = Api \<lparr>message = ''Failed to upload baseline file to S3'',
                        status = Some (response.status resp), code = None\<rparr>)
         \<and> (\<forall>resp. length reqs = 4
                \<and> storage net (length log + 3) (storage_request i2 r) = Responded resp \<longrightarrow>
               f = Api \<lparr>message = ''Failed to upload renewal file to S3'',
                        status = Some (response.status resp), code = None\<rparr>))"
proof (rule apiRequest_init_cases [of rt "uploads_init net" b token log])
  fix e
  assume a: "apiRequest rt (uploads_init net) ''/uploads/init'' (init_options b) token log
               = (Inl e, log @ [init_request rt b token])"
  have u: "uploadFiles rt net b r token log = (Inl (Api e), log @ [init_request rt b token])"
    by (simp add: uploadFiles_def a)
  show ?thesis
    apply (rule exI [of _ "[init_request rt b token]"])
    apply (simp add: u mutationFn_def init_not_create)
    done
next
  fix i1
  assume a: "apiRequest rt (uploads_init net) ''/uploads/init'' (init_options b) token log
               = (Inr i1, log @ [init_request rt b token])"
  let ?ib = "init_request rt b token" and ?sb = "storage_request i1 b"
  let ?ir = "init_request rt r token"
  show ?thesis
  proof (cases "storage net (length log + 1) ?sb")
    case (Rejected x)
    have u: "uploadFiles rt net b r token log = (Inl (Raw x), log @ [?ib, ?sb])"
      using Rejected by (simp add: uploadFiles_def a fetch_def)
    show ?thesis
      apply (rule exI [of _ "[?ib, ?sb]"], rule exI [of _ i1])
      using Rejected apply (simp add: u mutationFn_def init_not_create storage_not_create)
      done
  next
    case (Responded resp1)
    show ?thesis
    proof (cases "ok resp1")
      case False
      have u: "uploadFiles rt net b r token log
                 = (Inl (Api \<lparr>message = ''Failed to upload baseline file to S3'',
                                status = Some (response.status resp1), code = None\<rparr>),
                    log @ [?ib, ?sb])"
        using Responded False by (simp add: uploadFiles_def a fetch_def)
      show ?thesis
        apply (rule exI [of _ "[?ib, ?sb]"], rule exI [of _ i1])
        using Responded apply (simp add: u mutationFn_def init_not_create storage_not_create)
        done
    next
      case True
      have up: "baseline_uploaded rt net b token log i1"
        using Responded True by (simp add: baseline_uploaded_def a)
      show ?thesis
      proof (rule apiRequest_init_cases [of rt "uploads_init net" r token "log @ [?ib, ?sb]"])
        fix e
        assume a2: "apiRequest rt (uploads_init net) ''/uploads/init'' (init_options r) token
                      (log @ [?ib, ?sb]) = (Inl e, (log @ [?ib, ?sb]) @ [?ir])"
        have u: "uploadFiles rt net b r token log = (Inl (Api e), log @ [?ib, ?sb, ?ir])"
          using a2 Responded True by (simp add: uploadFiles_def a fetch_def)
        show ?thesis
          apply (rule exI [of _ "[?ib, ?sb, ?ir]"], rule exI [of _ i1])
          apply (simp add: u mutationFn_def init_not_create storage_not_create up)
          done
      next
        fix i2
        assume a2: "apiRequest rt (uploads_init net) ''/uploads/init'' (init_options r) token
                      (log @ [?ib, ?sb]) = (Inr i2, (log @ [?ib, ?sb]) @ [?ir])"
        let ?sr = "storage_request i2 r"
        show ?thesis
        proof (cases "storage net (length log + 3) ?sr")
          case (Rejected x)
          have u: "uploadFiles rt net b r token log = (Inl (Raw x), log @ [?ib, ?sb, ?ir, ?sr])"
            using a2 Rejected Responded True by (simp add: uploadFiles_def a fetch_def numeral_3_eq_3)
          show ?thesis
            apply (rule exI [of _ "[?ib, ?sb, ?ir, ?sr]"], rule exI [of _ i1], rule exI [of _ i2])
            using Rejected apply (simp add: u mutationFn_def init_not_create storage_not_create up numeral_3_eq_3)
            done
        next
          case resp: (Responded resp2)
          show ?thesis
          proof (cases "ok resp2")
            case False
            have u: "uploadFiles rt net b r token log
                       = (Inl (Api \<lparr>message = ''Failed to upload renewal file to S3'',
                                      status = Some (response.status resp2), code = None\<rparr>),
                          log @ [?ib, ?sb, ?ir, ?sr])"
              using a2 resp False Responded True by (simp add: uploadFiles_def a fetch_def numeral_3_eq_3)
            show ?thesis
              apply (rule exI [of _ "[?ib, ?sb, ?ir, ?sr]"], rule exI [of _ i1], rule exI [of _ i2])
              using resp apply (simp add: u mutationFn_def init_not_create storage_not_create up numeral_3_eq_3)
              done
          next
            case ok2: True
            have u: "uploadFiles rt net b r token log
                       = (Inr \<lparr>baseline_s3_key = s3_key i1, renewal_s3_key = s3_key i2\<rparr>,
                          log @ [?ib, ?sb, ?ir, ?sr])"
              using a2 resp ok2 Responded True by (simp add: uploadFiles_def a fetch_def numeral_3_eq_3)
            show ?thesis
              apply (rule exI [of _ "[?ib, ?sb, ?ir, ?sr]"], rule exI [of _ i1], rule exI [of _ i2])
              apply (simp add: u up)
              done
          qed
        qed
      qed
    qed
  qed
qed


lemmas example_defs =
  example_runtime_def baseline_pdf_def renewal_pdf_def example_destination_def example_job_def
  respond_def net_ok_def net_storage_forbidden_def net_baseline_init_down_def
  net_renewal_init_down_def

lemmas client_defs =
  mutationFn_def uploadFiles_def createAnalysis_def apiRequest_def apiRequest_try_def fetch_def
  ok_def error_of_response_def

lemma eval_baseline_init_down:
  "mutationFn example_runtime net_baseline_init_down None baseline_pdf renewal_pdf None []
     = (Inl (Api \<lparr>message = ''HTTP 500: Internal Server Error'', status = Some 500, code = None\<rparr>),
        [init_request example_runtime baseline_pdf None])"
  by (simp add: client_defs example_defs init_request_def decimal.simps digit_char_def)

lemma eval_renewal_init_down:
  "mutationFn example_runtime net_renewal_init_down None baseline_pdf renewal_pdf None []
     = (Inl (Api \<lparr>message = ''HTTP 500: Internal Server Error'', status = Some 500, code = None\<rparr>),
        [init_request example_runtime baseline_pdf None,
         storage_request example_destination baseline_pdf,
         init_request example_runtime renewal_pdf None])"
  by (simp add: client_defs example_defs init_request_def decimal.simps digit_char_def)

text \<open>
  Claim C2 fails as stated: the error does not always tell which file failed. When the
  backend answers the init request with 500, the job creation fails with the same
  \<^verbatim>\<open>ApiError\<close> whether this happens on the baseline file (first request) or, the baseline
  file being uploaded, on the renewal file (third request).
\<close>

theorem init_failure_does_not_name_the_file:
  "fst (mutationFn example_runtime net_baseline_init_down None baseline_pdf renewal_pdf None [])
     = fst (mutationFn example_runtime net_renewal_init_down None baseline_pdf renewal_pdf None [])
   \<and> snd (mutationFn example_runtime net_baseline_init_down None baseline_pdf renewal_pdf None [])
     = [init_request example_runtime baseline_pdf None]
   \<and> snd (mutationFn example_runtime net_renewal_init_down None baseline_pdf renewal_pdf None [])
     = [init_request example_runtime baseline_pdf None,
        storage_request example_destination baseline_pdf,
        init_request example_runtime renewal_pdf None]"
  by (simp add: eval_baseline_init_down eval_renewal_init_down)

lemma apiRequest_init_eq:
  "fst (apiRequest rt net ''/uploads/init'' (init_options file) token log) = v \<Longrightarrow>
     apiRequest rt net ''/uploads/init'' (init_options file) token log
       = (v, log @ [init_request rt file token])"
  using apiRequest_log [of rt net "''/uploads/init''" "init_options file" token log]
  by (cases "apiRequest rt net ''/uploads/init'' (init_options file) token log")
     (simp add: init_request_def)

lemma baseline_uploaded_iff:
  "baseline_uploaded rt net b token log i1 \<longleftrightarrow>
     baseline_init_answer rt net b token log = Inr i1
     \<and> (\<exists>resp. baseline_transfer_answer net log i1 b = Responded resp \<and> ok resp)"
  by (auto simp: baseline_uploaded_def baseline_init_answer_def baseline_transfer_answer_def
           split: fetch_outcome.splits)

lemma uploadFiles_baseline_init_fails:
  assumes "baseline_init_answer rt net b token log = Inl e"
  shows "uploadFiles rt net b r token log = (Inl (Api e), log @ [init_request rt b token])"
  using apiRequest_init_eq [OF assms [unfolded baseline_init_answer_def]]
  by (simp add: uploadFiles_def)

lemma uploadFiles_baseline_transfer:
  assumes "baseline_init_answer rt net b token log = Inr i1"
  shows "uploadFiles rt net b r token log =
     (case baseline_transfer_answer net log i1 b of
        Rejected x \<Rightarrow> (Inl (Raw x), log @ [init_request rt b token, storage_request i1 b])
      | Responded resp \<Rightarrow>
          if \<not> ok resp
          then (Inl (Api \<lparr>message = ''Failed to upload baseline file to S3'',
                           status = Some (response.status resp), code = None\<rparr>),
                log @ [init_request rt b token, storage_request i1 b])
          else uploadFiles rt net b r token log)"
  using apiRequest_init_eq [OF assms [unfolded baseline_init_answer_def]]
  by (simp add: uploadFiles_def fetch_def baseline_transfer_answer_def split: fetch_outcome.splits)

lemma uploadFiles_renewal:
  assumes "baseline_uploaded rt net b token log i1"
  shows "uploadFiles rt net b r token log =
     (case renewal_init_answer rt net b r token log i1 of
        Inl e \<Rightarrow> (Inl (Api e),
                  log @ [init_request rt b token, storage_request i1 b, init_request rt r token])
      | Inr i2 \<Rightarrow>
         (case renewal_transfer_answer net log i2 r of
            Rejected x \<Rightarrow>
              (Inl (Raw x),
               log @ [init_request rt b token, storage_request i1 b,
                      init_request rt r token, storage_request i2 r])
          | Responded resp \<Rightarrow>
              (if \<not> ok resp
               then Inl (Api \<lparr>message = ''Failed to upload renewal file to S3'',
                               status = Some (response.status resp), code = None\<rparr>)
               else Inr \<lparr>baseline_s3_key = s3_key i1, renewal_s3_key = s3_key i2\<rparr>,
               log @ [init_request rt b token, storage_request i1 b,
                      init_request rt r token, storage_request i2 r])))"
proof -
  from assms obtain resp1 where
    a: "fst (apiRequest rt (uploads_init net) ''/uploads/init'' (init_options b) token log) = Inr i1"
    and s: "storage net (Suc (length log)) (storage_request i1 b) = Responded resp1" and o: "ok resp1"
    by (auto simp: baseline_uploaded_def split: fetch_outcome.splits)
  note a' = apiRequest_init_eq [OF a]
  have b': "apiRequest rt (uploads_init net) ''/uploads/init'' (init_options r) token
              (log @ [init_request rt b token, storage_request i1 b])
            = (renewal_init_answer rt net b r token log i1,
               log @ [init_request rt b token, storage_request i1 b, init_request rt r token])"
    using apiRequest_init_eq [of rt "uploads_init net" r token
            "log @ [init_request rt b token, storage_request i1 b]"
            "renewal_init_answer rt net b r token log i1"]
    by (simp add: renewal_init_answer_def)
  show ?thesis
    by (simp add: uploadFiles_def a' fetch_def s o b' renewal_transfer_answer_def numeral_3_eq_3
             split: sum.splits fetch_outcome.splits)
qed

text \<open>
  Claim C2, as the code has it. Job creation runs the upload steps in the order baseline
  init, baseline transfer, renewal init, renewal transfer, and the first step that fails
  ends it with that step's error, nothing further being sent: the \<^verbatim>\<open>ApiError\<close> of a
  failed init request, the thrown value of a rejected transfer, or, when the storage
  answers a transfer with a status outside 2xx, the fixed message naming the baseline
  or the renewal file with that status. The renewal init is sent only when the baseline
  file is fully uploaded. None of the four upload requests is a create-analysis request;
  that request is sent only when all four steps have succeeded.
\<close>

theorem failed_upload_step_aborts_job_creation:
  "(baseline_init_answer rt net b token log = Inl e \<longrightarrow>
      mutationFn rt net token b r md log = (Inl (Api e), log @ [init_request rt b token]))
   \<and> (baseline_init_answer rt net b token log = Inr i1
        \<and> baseline_transfer_answer net log i1 b = Rejected x \<longrightarrow>
      mutationFn rt net token b r md log
        = (Inl (Raw x), log @ [init_request rt b token, storage_request i1 b]))
   \<and> (baseline_init_answer rt net b token log = Inr i1
        \<and> baseline_transfer_answer net log i1 b = Responded resp \<and> \<not> ok resp \<longrightarrow>
      mutationFn rt net token b r md log
        = (Inl (Api \<lparr>message = ''Failed to upload baseline file to S3'',
                      status = Some (response.status resp), code = None\<rparr>),
           log @ [init_request rt b token, storage_request i1 b]))
   \<and> (baseline_uploaded rt net b token log i1
        \<and> renewal_init_answer rt net b r token log i1 = Inl e \<longrightarrow>
      mutationFn rt net token b r md log
        = (Inl (Api e),
           log @ [init_request rt b token, storage_request i1 b, init_request rt r token]))
   \<and> (baseline_uploaded rt net b token log i1
        \<and> renewal_init_answer rt net b r token log i1 = Inr i2
        \<and> renewal_transfer_answer net log i2 r = Rejected x \<longrightarrow>
      mutationFn rt net token b r md log
        = (Inl (Raw x),
           log @ [init_request rt b token, storage_request i1 b,
                  init_request rt r token, storage_request i2 r]))
   \<and> (baseline_uploaded rt net b token log i1
        \<and> renewal_init_answer rt net b r token log i1 = Inr i2
        \<and> renewal_transfer_answer net log i2 r = Responded resp \<and> \<not> ok resp \<longrightarrow>
      mutationFn rt net token b r md log
        = (Inl (Api \<lparr>message = ''Failed to upload renewal file to S3'',
                      status = Some (response.status resp), code = None\<rparr>),
           log @ [init_request rt b token, storage_request i1 b,
                  init_request rt r token, storage_request i2 r]))
   \<and> (baseline_uploaded rt net b token log i1
        \<and> renewal_init_answer rt net b r token log i1 = Inr i2
        \<and> renewal_transfer_answer net log i2 r = Responded resp \<and> ok resp \<longrightarrow>
      mutationFn rt net token b r md log
        = (case createAnalysis rt net (s3_key i1) (s3_key i2) md token
                  (log @ [init_request rt b token, storage_request i1 b,
                          init_request rt r token, storage_request i2 r]) of
             (Inl err, log') \<Rightarrow> (Inl (Api err), log')
           | (Inr job, log') \<Rightarrow> (Inr job, log')))
   \<and> filter (is_create_analysis_request rt)
        [init_request rt b token, storage_request i1 b,
         init_request rt r token, storage_request i2 r] = []"
proof -
  have 1: "baseline_init_answer rt net b token log = Inl e \<longrightarrow>
      mutationFn rt net token b r md log = (Inl (Api e), log @ [init_request rt b token])"
    by (simp add: mutationFn_def uploadFiles_baseline_init_fails)
  have 2: "baseline_init_answer rt net b token log = Inr i1
        \<and> baseline_transfer_answer net log i1 b = Rejected x \<longrightarrow>
      mutationFn rt net token b r md log
        = (Inl (Raw x), log @ [init_request rt b token, storage_request i1 b])"
  proof (intro impI, elim conjE)
    assume a: "baseline_init_answer rt net b token log = Inr i1"
      and t: "baseline_transfer_answer net log i1 b = Rejected x"
    show "mutationFn rt net token b r md log
        = (Inl (Raw x), log @ [init_request rt b token, storage_request i1 b])"
      using uploadFiles_baseline_transfer [OF a, of r] by (simp add: mutationFn_def t)
  qed
  have 3: "baseline_init_answer rt net b token log = Inr i1
        \<and> baseline_transfer_answer net log i1 b = Responded resp \<and> \<not> ok resp \<longrightarrow>
      mutationFn rt net token b r md log
        = (Inl (Api \<lparr>message = ''Failed to upload baseline file to S3'',
                      status = Some (response.status resp), code = None\<rparr>),
           log @ [init_request rt b token, storage_request i1 b])"
  proof (intro impI, elim conjE)
    assume a: "baseline_init_answer rt net b token log = Inr i1"
      and t: "baseline_transfer_answer net log i1 b = Responded resp" and n: "\<not> ok resp"
    show "mutationFn rt net token b r md log
        = (Inl (Api \<lparr>message = ''Failed to upload baseline file to S3'',
                      status = Some (response.status resp), code = None\<rparr>),
           log @ [init_request rt b token, storage_request i1 b])"
      using uploadFiles_baseline_transfer [OF a, of r] by (simp add: mutationFn_def t n)
  qed
  have 4: "baseline_uploaded rt net b token log i1
        \<and> renewal_init_answer rt net b r token log i1 = Inl e \<longrightarrow>
      mutationFn rt net token b r md log
        = (Inl (Api e),
           log @ [init_request rt b token, storage_request i1 b, init_request rt r token])"
    by (clarsimp simp: mutationFn_def uploadFiles_renewal)
  have 5: "baseline_uploaded rt net b token log i1
        \<and> renewal_init_answer rt net b r token log i1 = Inr i2
        \<and> renewal_transfer_answer net log i2 r = Rejected x \<longrightarrow>
      mutationFn rt net token b r md log
        = (Inl (Raw x),
           log @ [init_request rt b token, storage_request i1 b,
                  init_request rt r token, storage_request i2 r])"
    by (clarsimp simp: mutationFn_def uploadFiles_renewal)
  have 6: "baseline_uploaded rt net b token log i1
        \<and> renewal_init_answer rt net b r token log i1 = Inr i2
        \<and> renewal_transfer_answer net log i2 r = Responded resp \<and> \<not> ok resp \<longrightarrow>
      mutationFn rt net token b r md log
        = (Inl (Api \<lparr>message = ''Failed to upload renewal file to S3'',
                      status = Some (response.status resp), code = None\<rparr>),
           log @ [init_request rt b token, storage_request i1 b,
                  init_request rt r token, storage_request i2 r])"
    by (clarsimp simp: mutationFn_def uploadFiles_renewal)
  have 7: "baseline_uploaded rt net b token log i1
        \<and> renewal_init_answer rt net b r token log i1 = Inr i2
        \<and> renewal_transfer_answer net log i2 r = Responded resp \<and> ok resp \<longrightarrow>
      mutationFn rt net token b r md log
        = (case createAnalysis rt net (s3_key i1) (s3_key i2) md token
                  (log @ [init_request rt b token, storage_request i1 b,
                          init_request rt r token, storage_request i2 r]) of
             (Inl err, log') \<Rightarrow> (Inl (Api err), log')
           | (Inr job, log') \<Rightarrow> (Inr job, log'))"
    by (clarsimp simp: mutationFn_def uploadFiles_renewal)
  have 8: "filter (is_create_analysis_request rt)
        [init_request rt b token, storage_request i1 b,
         init_request rt r token, storage_request i2 r] = []"
    by (simp add: init_not_create storage_not_create)
  from 1 2 3 4 5 6 7 8 show ?thesis
    by blast
qed


lemmas answer_defs =
  baseline_init_answer_def baseline_transfer_answer_def renewal_init_answer_def
  renewal_transfer_answer_def baseline_uploaded_def init_request_def
  net_renewal_storage_forbidden_def net_storage_unreachable_def

text \<open>
  The theorem of claim C2 on five networks: the backend answers the baseline init with
  500; the storage cannot be reached; the storage answers the baseline transfer with 403;
  the backend answers the renewal init with 500; the storage answers the renewal transfer
  with 403.
\<close>

theorem failed_upload_step_aborts_job_creation_witness:
  "mutationFn example_runtime net_baseline_init_down None baseline_pdf renewal_pdf None []
     = (Inl (Api \<lparr>message = ''HTTP 500: Internal Server Error'', status = Some 500, code = None\<rparr>),
        [init_request example_runtime baseline_pdf None])
   \<and> mutationFn example_runtime net_storage_unreachable None baseline_pdf renewal_pdf None []
     = (Inl (Raw (Error ''Failed to fetch'')),
        [init_request example_runtime baseline_pdf None,
         storage_request example_destination baseline_pdf])
   \<and> mutationFn example_runtime net_storage_forbidden None baseline_pdf renewal_pdf None []
     = (Inl (Api \<lparr>message = ''Failed to upload baseline file to S3'', status = Some 403, code = None\<rparr>),
        [init_request example_runtime baseline_pdf None,
         storage_request example_destination baseline_pdf])
   \<and> mutationFn example_runtime net_renewal_init_down None baseline_pdf renewal_pdf None []
     = (Inl (Api \<lparr>message = ''HTTP 500: Internal Server Error'', status = Some 500, code = None\<rparr>),
        [init_request example_runtime baseline_pdf None,
         storage_request example_destination baseline_pdf,
         init_request example_runtime renewal_pdf None])
   \<and> mutationFn example_runtime net_renewal_storage_forbidden None baseline_pdf renewal_pdf None []
     = (Inl (Api \<lparr>message = ''Failed to upload renewal file to S3'', status = Some 403, code = None\<rparr>),
        [init_request example_runtime baseline_pdf None,
         storage_request example_destination baseline_pdf,
         init_request example_runtime renewal_pdf None,
         storage_request example_destination renewal_pdf])
   \<and> filter (is_create_analysis_request example_runtime)
        [init_request example_runtime baseline_pdf None,
         storage_request example_destination baseline_pdf,
         init_request example_runtime renewal_pdf None,
         storage_request example_destination renewal_pdf] = []"
proof -
  let ?e500 = "\<lparr>message = ''HTTP 500: Internal Server Error'', status = Some 500, code = None\<rparr>"
  let ?r403 = "\<lparr>response.status = 403, statusText = ''Forbidden'', errorData = None,
                 payload = Inl [] :: string + unit\<rparr>"
  note T = failed_upload_step_aborts_job_creation
  have h1: "baseline_init_answer example_runtime net_baseline_init_down baseline_pdf None [] = Inl ?e500"
    by (simp add: answer_defs client_defs example_defs decimal.simps digit_char_def)
  have h2: "baseline_init_answer example_runtime net_storage_unreachable baseline_pdf None []
              = Inr example_destination
            \<and> baseline_transfer_answer net_storage_unreachable [] example_destination baseline_pdf
              = Rejected (Error ''Failed to fetch'')"
    by (simp add: answer_defs client_defs example_defs)
  have h3: "baseline_init_answer example_runtime net_storage_forbidden baseline_pdf None []
              = Inr example_destination
            \<and> baseline_transfer_answer net_storage_forbidden [] example_destination baseline_pdf
              = Responded ?r403
            \<and> \<not> ok ?r403"
    by (simp add: answer_defs client_defs example_defs)
  have h4: "baseline_uploaded example_runtime net_renewal_init_down baseline_pdf None [] example_destination
            \<and> renewal_init_answer example_runtime net_renewal_init_down baseline_pdf renewal_pdf None []
                example_destination = Inl ?e500"
    by (simp add: answer_defs client_defs example_defs decimal.simps digit_char_def)
  have h6: "baseline_uploaded example_runtime net_renewal_storage_forbidden baseline_pdf None []
              example_destination
            \<and> renewal_init_answer example_runtime net_renewal_storage_forbidden baseline_pdf renewal_pdf
                None [] example_destination = Inr example_destination
            \<and> renewal_transfer_answer net_renewal_storage_forbidden [] example_destination renewal_pdf
                = Responded ?r403
            \<and> \<not> ok ?r403"
    by (simp add: answer_defs client_defs example_defs)
  have c1: "mutationFn example_runtime net_baseline_init_down None baseline_pdf renewal_pdf None []
              = (Inl (Api ?e500), [] @ [init_request example_runtime baseline_pdf None])"
    using T [where rt = example_runtime and net = net_baseline_init_down and b = baseline_pdf
               and token = None and log = "[]" and e = ?e500 and r = renewal_pdf and md = None] h1
    by blast
  have c2: "mutationFn example_runtime net_storage_unreachable None baseline_pdf renewal_pdf None []
              = (Inl (Raw (Error ''Failed to fetch'')),
                 [] @ [init_request example_runtime baseline_pdf None,
                       storage_request example_destination baseline_pdf])"
    using T [where rt = example_runtime and net = net_storage_unreachable and b = baseline_pdf
               and token = None and log = "[]" and r = renewal_pdf and md = None
               and ?i1.0 = example_destination and x = "Error ''Failed to fetch''"] h2
    by blast
  have c3: "mutationFn example_runtime net_storage_forbidden None baseline_pdf renewal_pdf None []
              = (Inl (Api \<lparr>message = ''Failed to upload baseline file to S3'',
                            status = Some (response.status ?r403), code = None\<rparr>),
                 [] @ [init_request example_runtime baseline_pdf None,
                       storage_request example_destination baseline_pdf])"
    using T [where rt = example_runtime and net = net_storage_forbidden and b = baseline_pdf
               and token = None and log = "[]" and r = renewal_pdf and md = None
               and ?i1.0 = example_destination and resp = ?r403] h3
    by blast
  have c4: "mutationFn example_runtime net_renewal_init_down None baseline_pdf renewal_pdf None []
              = (Inl (Api ?e500),
                 [] @ [init_request example_runtime baseline_pdf None,
                       storage_request example_destination baseline_pdf,
                       init_request example_runtime renewal_pdf None])"
    using T [where rt = example_runtime and net = net_renewal_init_down and b = baseline_pdf
               and token = None and log = "[]" and r = renewal_pdf and md = None
               and ?i1.0 = example_destination and e = ?e500] h4
    by blast
  have c6: "mutationFn example_runtime net_renewal_storage_forbidden None baseline_pdf renewal_pdf None []
              = (Inl (Api \<lparr>message = ''Failed to upload renewal file to S3'',
                            status = Some (response.status ?r403), code = None\<rparr>),
                 [] @ [init_request example_runtime baseline_pdf None,
                       storage_request example_destination baseline_pdf,
                       init_request example_runtime renewal_pdf None,
                       storage_request example_destination renewal_pdf])"
    using T [where rt = example_runtime and net = net_renewal_storage_forbidden and b = baseline_pdf
               and token = None and log = "[]" and r = renewal_pdf and md = None
               and ?i1.0 = example_destination and ?i2.0 = example_destination and resp = ?r403] h6
    by blast
  have c8: "filter (is_create_analysis_request example_runtime)
        [init_request example_runtime baseline_pdf None,
         storage_request example_destination baseline_pdf,
         init_request example_runtime renewal_pdf None,
         storage_request example_destination renewal_pdf] = []"
    using T [where rt = example_runtime and b = baseline_pdf and token = None and r = renewal_pdf
               and ?i1.0 = example_destination and ?i2.0 = example_destination]
    by blast
  from c1 c2 c3 c4 c6 c8 show ?thesis
    by simp
qed

lemma status_key_not_history: "\<not> prefix ANALYSIS_QUERY_KEYS_history (ANALYSIS_QUERY_KEYS_status jobId)"
  by (simp add: ANALYSIS_QUERY_KEYS_history_def ANALYSIS_QUERY_KEYS_status_def ANALYSIS_QUERY_KEYS_all_def)


lemma onSuccess_status_fresh:
  "\<exists>q. onSuccess job cache (ANALYSIS_QUERY_KEYS_status (Some (job_id job))) = Some q
       \<and> data q = Some (JobData job) \<and> \<not> isInvalidated q"
  by (simp add: onSuccess_def invalidateQueries_def setQueryData_def status_key_not_history)






section \<open>Properties of the onboarding wizard\<close>

lemma QUESTIONS_length: "length QUESTIONS = 5"
  by (simp add: QUESTIONS_def)

lemma QUESTIONS_distinct: "distinct (map qid QUESTIONS)"
  by (simp add: QUESTIONS_def)

lemma qid_inj:
  "q \<in> set QUESTIONS \<Longrightarrow> q' \<in> set QUESTIONS \<Longrightarrow> qid q = qid q' \<Longrightarrow> q = q'"
  using QUESTIONS_distinct by (meson distinct_map inj_onD)

lemma question_Some:
  "question st = Some q \<Longrightarrow> currentStep st < length QUESTIONS \<and> q \<in> set QUESTIONS"
  by (auto simp: question_def split: if_splits)

lemma trim_nonempty: "trim s \<noteq> [] \<longleftrightarrow> list_ex (\<lambda>c. \<not> is_white_space c) s"
proof -
  have "(\<exists>x \<in> set (dropWhile is_white_space s). \<not> is_white_space x)
          \<longleftrightarrow> (\<exists>x \<in> set s. \<not> is_white_space x)"
  proof
    assume "\<exists>x \<in> set (dropWhile is_white_space s). \<not> is_white_space x"
    then show "\<exists>x \<in> set s. \<not> is_white_space x"
      by (meson set_dropWhileD)
  next
    assume "\<exists>x \<in> set s. \<not> is_white_space x"
    then have ne: "dropWhile is_white_space s \<noteq> []"
      by simp
    then have "\<not> is_white_space (hd (dropWhile is_white_space s))"
      by (rule hd_dropWhile)
    with ne show "\<exists>x \<in> set (dropWhile is_white_space s). \<not> is_white_space x"
      using hd_in_set by blast
  qed
  then show ?thesis
    by (simp add: trim_def list_ex_iff)
qed

lemma handleNext_begin_step:
  "currentStep st < length QUESTIONS \<Longrightarrow> currentStep (fst (handleNext_begin u st)) < length QUESTIONS"
  by (auto simp: handleNext_begin_def isLastStep_def)

lemma fire_step_in_range:
  "fire u st ev = Some st' \<Longrightarrow> currentStep st' < length QUESTIONS"
  by (cases ev)
     (auto simp: fire.simps setAnswer_def handleBack_def handleNext_settle_def handleNext_begin_step
           dest!: question_Some split: option.splits if_splits)

lemma reachable_step_in_range: "reachable st \<Longrightarrow> currentStep st < length QUESTIONS"
proof (induction rule: reachable.induct)
  case start
  show ?case by (simp add: initial_def QUESTIONS_length)
next
  case (after st u ev st')
  then show ?case by (simp add: fire_step_in_range)
qed

lemma setAnswer_well_typed:
  assumes "well_typed st" "q \<in> set QUESTIONS" "answer_fits (qtype q) (Some v)"
  shows "well_typed (setAnswer q v st)"
  unfolding well_typed_def
proof
  fix q' assume q': "q' \<in> set QUESTIONS"
  show "answer_fits (qtype q') (answers (setAnswer q v st) (qid q'))"
  proof (cases "qid q' = qid q")
    case True
    then have "q' = q" using qid_inj q' assms(2) by blast
    then show ?thesis using assms(3) by (simp add: setAnswer_def)
  next
    case False
    then show ?thesis using assms(1) q' by (simp add: setAnswer_def well_typed_def)
  qed
qed

lemma handleNext_begin_answers: "answers (fst (handleNext_begin u st)) = answers st"
  by (simp add: handleNext_begin_def)

lemma fire_well_typed:
  assumes "fire u st ev = Some st'" "well_typed st"
  shows "well_typed st'"
proof -
  obtain q where q: "question st = Some q" and qs: "q \<in> set QUESTIONS"
    using assms(1) by (auto simp: fire.simps dest: question_Some split: option.splits)
  note fire = assms(1) [unfolded fire.simps q, simplified]
  have same: "\<And>s. answers s = answers st \<Longrightarrow> well_typed s"
    using assms(2) by (simp add: well_typed_def)
  show ?thesis
  proof (cases ev)
    case (Change s)
    then show ?thesis using fire assms(2) qs
      by (auto split: if_splits intro!: setAnswer_well_typed)
  next
    case ClickYes
    then show ?thesis using fire assms(2) qs
      by (cases "qtype q") (auto split: if_splits intro!: setAnswer_well_typed)
  next
    case ClickNo
    then show ?thesis using fire assms(2) qs
      by (cases "qtype q") (auto split: if_splits intro!: setAnswer_well_typed)
  next
    case ClickNext
    then show ?thesis using fire
      by (auto split: if_splits intro!: same simp: handleNext_begin_answers)
  next
    case PressEnter
    then show ?thesis using fire
      by (auto split: if_splits intro!: same simp: handleNext_begin_answers)
  next
    case ClickBack
    then show ?thesis using fire
      by (auto split: if_splits intro!: same simp: handleBack_def)
  next
    case (UpdateRejected e)
    then show ?thesis using fire
      by (auto split: if_splits intro!: same simp: handleNext_settle_def)
  qed
qed

lemma reachable_well_typed: "reachable st \<Longrightarrow> well_typed st"
proof (induction rule: reachable.induct)
  case start
  show ?case by (simp add: initial_def well_typed_def)
next
  case (after st u ev st')
  then show ?case by (simp add: fire_well_typed)
qed

lemma canProceed_well_typed:
  "answer_fits (qtype q) a \<Longrightarrow> canProceed q a = satisfies_type_constraint (qtype q) a"
  by (cases "qtype q"; cases a; cases "the a") (auto simp: canProceed_def trim_nonempty)


lemma render_Card:
  "render a u st = (Card c, fx) \<Longrightarrow> question st = Some q \<Longrightarrow>
     shown c = q \<and> next_disabled c = (\<not> canProceed q (answers st (qid q)) \<or> isSubmitting st)"
  by (auto simp: render_def split: if_splits)

text \<open>
  Claim C4, as the code has it. In every state the wizard can reach, the code's
  \<^verbatim>\<open>canProceed\<close> holds exactly when the answer to the current question satisfies the type
  constraint of the specification: a string with a character that is not white space for
  a text question, a boolean (\<open>False\<close> as well as \<open>True\<close>) for a yes/no question. The
  forward transition by the Next button is enabled exactly when that constraint holds
  and no submission is in progress: the page, whenever it shows the wizard, shows the card
  of the current question, whose Next button is disabled exactly when the constraint
  fails or a submission is in progress.
\<close>

theorem forward_enabled_iff_type_constraint:
  assumes "reachable st"
  shows "\<exists>q. question st = Some q
            \<and> canProceed q (answers st (qid q))
                = satisfies_type_constraint (qtype q) (answers st (qid q))
            \<and> (\<forall>a u c fx. render a u st = (Card c, fx) \<longrightarrow>
                  shown c = q
                \<and> next_disabled c
                    = (\<not> satisfies_type_constraint (qtype q) (answers st (qid q)) \<or> isSubmitting st))
            \<and> (\<forall>a u. isLoaded a \<and> truthy_string (userId a) \<and> \<not> alreadyCompleted a u \<longrightarrow>
                  (\<exists>c. render a u st = (Card c, [])))
            \<and> (fire u st ClickNext \<noteq> None)
                = (satisfies_type_constraint (qtype q) (answers st (qid q)) \<and> \<not> isSubmitting st)"
proof -
  from assms have "currentStep st < length QUESTIONS"
    by (rule reachable_step_in_range)
  then obtain q where q: "question st = Some q" and qs: "q \<in> set QUESTIONS"
    by (auto simp: question_def)
  from assms have "well_typed st"
    by (rule reachable_well_typed)
  with qs have "answer_fits (qtype q) (answers st (qid q))"
    by (simp add: well_typed_def)
  then have iff: "canProceed q (answers st (qid q))
                    = satisfies_type_constraint (qtype q) (answers st (qid q))"
    by (rule canProceed_well_typed)
  have card: "\<forall>a u c fx. render a u st = (Card c, fx) \<longrightarrow>
                  shown c = q
                \<and> next_disabled c
                    = (\<not> satisfies_type_constraint (qtype q) (answers st (qid q)) \<or> isSubmitting st)"
    using render_Card [OF _ q] iff by blast
  have click: "(fire u st ClickNext \<noteq> None)
                = (satisfies_type_constraint (qtype q) (answers st (qid q)) \<and> \<not> isSubmitting st)"
    using iff by (simp add: fire.simps q)
  have shown: "\<forall>a u. isLoaded a \<and> truthy_string (userId a) \<and> \<not> alreadyCompleted a u \<longrightarrow>
                  (\<exists>c. render a u st = (Card c, []))"
    by (simp add: render_def q)
  from q iff card shown click show ?thesis by blast
qed

lemma reachable_climate_no: "reachable climate_no"
proof -
  let ?s1 = "\<lparr>currentStep = 0, answers = [''location'' \<mapsto> AString new_york], isSubmitting = False\<rparr>"
  let ?s2 = "\<lparr>currentStep = 1, answers = [''location'' \<mapsto> AString new_york], isSubmitting = False\<rparr>"
  have "fire None initial (Change new_york) = Some ?s1"
    by (simp add: fire.simps question_def QUESTIONS_def initial_def setAnswer_def)
  with reachable.start have 1: "reachable ?s1"
    by (rule reachable.after)
  have "fire None ?s1 ClickNext = Some ?s2"
    by (simp add: fire.simps question_def QUESTIONS_def canProceed_def trim_def is_white_space_def
          new_york_def handleNext_begin_def isLastStep_def)
  with 1 have 2: "reachable ?s2"
    by (rule reachable.after)
  have "fire None ?s2 ClickNo = Some climate_no"
    by (simp add: fire.simps question_def QUESTIONS_def setAnswer_def climate_no_def)
  with 2 show ?thesis
    by (rule reachable.after)
qed

text \<open>
  The theorem of claim C4 in the state reached by typing \<open>NY\<close>, pressing Next and
  answering No: the answer \<open>False\<close> enables the forward transition.
\<close>

theorem forward_enabled_iff_type_constraint_witness:
  "reachable climate_no
   \<and> question climate_no = Some (QUESTIONS ! 1)
   \<and> canProceed (QUESTIONS ! 1) (Some (ABool False))
   \<and> fire None climate_no ClickNext \<noteq> None"
proof -
  from forward_enabled_iff_type_constraint [OF reachable_climate_no, of None]
  obtain q where q: "question climate_no = Some q"
    and iff: "canProceed q (answers climate_no (qid q))
                = satisfies_type_constraint (qtype q) (answers climate_no (qid q))"
    and click: "(fire None climate_no ClickNext \<noteq> None)
                = (satisfies_type_constraint (qtype q) (answers climate_no (qid q))
                   \<and> \<not> isSubmitting climate_no)"
    by blast
  have q1: "q = QUESTIONS ! 1"
    using q by (simp add: question_def climate_no_def QUESTIONS_def)
  have sat: "satisfies_type_constraint (qtype q) (answers climate_no (qid q))"
    by (simp add: q1 QUESTIONS_def climate_no_def)
  have ans: "answers climate_no (qid q) = Some (ABool False)"
    by (simp add: q1 QUESTIONS_def climate_no_def)
  from iff sat ans have "canProceed (QUESTIONS ! 1) (Some (ABool False))"
    by (simp add: q1)
  moreover from click sat have "fire None climate_no ClickNext \<noteq> None"
    by (simp add: climate_no_def)
  ultimately show ?thesis
    using reachable_climate_no q q1 by simp
qed

lemma isLastStep_last_step_state: "isLastStep last_step_state"
  by (simp add: isLastStep_def last_step_state_def QUESTIONS_length)

lemma run_reachable: "reachable st \<Longrightarrow> run u st evs = Some st' \<Longrightarrow> reachable st'"
proof (induction evs arbitrary: st)
  case Nil
  then show ?case by simp
next
  case (Cons ev evs)
  then obtain st1 where f: "fire u st ev = Some st1" and r: "run u st1 evs = Some st'"
    by (auto split: option.splits)
  from Cons.prems(1) f have "reachable st1"
    by (rule reachable.after)
  with r show ?case
    by (rule Cons.IH [rotated])
qed

lemmas wizard_eval =
  fire.simps question_def QUESTIONS_def canProceed_def trim_def is_white_space_def
  new_york_def handleNext_begin_def isLastStep_def setAnswer_def handleBack_def
  handleNext_settle_def

lemma run_to_last_step:
  "run (Some new_user) initial
     [Change new_york, PressEnter, ClickNo, ClickNext, ClickYes, ClickNext,
      ClickYes, ClickNo, ClickNext, ClickYes]
   = Some last_step_state"
  by (simp add: wizard_eval initial_def last_step_state_def)

lemma reachable_last_step_state: "reachable last_step_state"
  using reachable.start run_to_last_step by (rule run_reachable)

lemma fire_submit:
  "fire (Some new_user) last_step_state ClickNext = Some submitting_state"
  by (simp add: wizard_eval last_step_state_def submitting_state_def)

lemma reachable_submitting_state: "reachable submitting_state"
  using reachable_last_step_state fire_submit by (rule reachable.after)

text \<open>
  Claim C4 fails as stated: while the write of the last step is pending the wizard is in
  a state it can reach where the answer to the current question satisfies the type
  constraint, and yet the forward transition is not offered and the Next button is
  disabled.
\<close>

theorem submitting_blocks_forward_transition:
  "reachable submitting_state
   \<and> question submitting_state = Some (QUESTIONS ! 4)
   \<and> satisfies_type_constraint (qtype (QUESTIONS ! 4)) (answers submitting_state (qid (QUESTIONS ! 4)))
   \<and> canProceed (QUESTIONS ! 4) (answers submitting_state (qid (QUESTIONS ! 4)))
   \<and> fire (Some new_user) submitting_state ClickNext = None
   \<and> (\<exists>c. render example_auth (Some new_user) submitting_state = (Card c, []) \<and> next_disabled c)"
  by (simp add: reachable_submitting_state)
     (simp add: wizard_eval submitting_state_def last_step_state_def render_def example_auth_def
        alreadyCompleted_def hasCompletedOnboarding_def new_user_def)

text \<open>
  Claim C10. The wizard starts at step 0, and in every state it can reach the current
  step is below the number of questions, so the current question is defined.
  \<^verbatim>\<open>handleNext\<close> adds one to the step unless it is the last, where it leaves the step as
  it is; \<^verbatim>\<open>handleBack\<close> subtracts one only from a step above zero; both stay in range.
\<close>

theorem current_step_in_range:
  assumes "reachable st"
  shows "currentStep initial = 0
       \<and> currentStep st < length QUESTIONS
       \<and> (\<exists>q. question st = Some q)
       \<and> currentStep (fst (handleNext u provider st))
           = (if isLastStep st then currentStep st else currentStep st + 1)
       \<and> currentStep (fst (handleNext u provider st)) < length QUESTIONS
       \<and> currentStep (handleBack st)
           = (if 0 < currentStep st then currentStep st - 1 else currentStep st)
       \<and> currentStep (handleBack st) < length QUESTIONS"
proof -
  from assms have r: "currentStep st < length QUESTIONS"
    by (rule reachable_step_in_range)
  have n: "currentStep (fst (handleNext u provider st))
             = (if isLastStep st then currentStep st else currentStep st + 1)"
    by (simp add: handleNext_def handleNext_begin_def handleNext_settle_def Let_def
             split: option.splits)
  have n': "currentStep (fst (handleNext u provider st)) < length QUESTIONS"
    using r by (auto simp: n isLastStep_def)
  have b: "currentStep (handleBack st)
             = (if 0 < currentStep st then currentStep st - 1 else currentStep st)"
    by (simp add: handleBack_def)
  from r n n' b show ?thesis
    by (auto simp: initial_def question_def)
qed

text \<open>
  The theorem of claim C10 in two states reached by transitions, with a user object: on
  the second question, where forward and backward are both offered and move the step to
  2 and to 0, and on the last question, where forward leaves the step at 4 and backward
  moves it to 3.
\<close>

theorem current_step_in_range_witness:
  "reachable climate_no
   \<and> currentStep climate_no = 1
   \<and> fire (Some new_user) climate_no ClickNext = Some (fst (handleNext_begin (Some new_user) climate_no))
   \<and> currentStep (fst (handleNext (Some new_user) provider_up climate_no)) = 2
   \<and> fire (Some new_user) climate_no ClickBack = Some (handleBack climate_no)
   \<and> currentStep (handleBack climate_no) = 0
   \<and> reachable last_step_state
   \<and> isLastStep last_step_state
   \<and> question last_step_state = Some (QUESTIONS ! 4)
   \<and> fire (Some new_user) last_step_state ClickNext
       = Some (fst (handleNext_begin (Some new_user) last_step_state))
   \<and> currentStep (fst (handleNext (Some new_user) provider_down last_step_state)) = 4
   \<and> fire (Some new_user) last_step_state ClickBack = Some (handleBack last_step_state)
   \<and> currentStep (handleBack last_step_state) = 3"
proof -
  have c1: "currentStep climate_no = 1" and n1: "\<not> isLastStep climate_no"
    by (simp_all add: climate_no_def isLastStep_def QUESTIONS_length)
  have c4: "currentStep last_step_state = 4"
    by (simp add: last_step_state_def)
  have q4: "question last_step_state = Some (QUESTIONS ! 4)"
    by (simp add: question_def c4 QUESTIONS_length)
  have f1: "fire (Some new_user) climate_no ClickNext
              = Some (fst (handleNext_begin (Some new_user) climate_no))"
    "fire (Some new_user) climate_no ClickBack = Some (handleBack climate_no)"
    by (simp_all add: fire.simps question_def QUESTIONS_def canProceed_def climate_no_def)
  have f4: "fire (Some new_user) last_step_state ClickNext
              = Some (fst (handleNext_begin (Some new_user) last_step_state))"
    "fire (Some new_user) last_step_state ClickBack = Some (handleBack last_step_state)"
    by (simp_all add: fire.simps question_def QUESTIONS_def canProceed_def last_step_state_def)
  from current_step_in_range [OF reachable_climate_no, of "Some new_user" provider_up]
  have s1: "currentStep (fst (handleNext (Some new_user) provider_up climate_no)) = 2"
    "currentStep (handleBack climate_no) = 0"
    by (simp_all add: c1 n1)
  from current_step_in_range [OF reachable_last_step_state, of "Some new_user" provider_down]
  have s4: "currentStep (fst (handleNext (Some new_user) provider_down last_step_state)) = 4"
    "currentStep (handleBack last_step_state) = 3"
    by (simp_all add: c4 isLastStep_last_step_state)
  from c1 f1 s1 q4 f4 s4 show ?thesis
    using reachable_climate_no reachable_last_step_state isLastStep_last_step_state by simp
qed

text \<open>
  Claim C3, as the code has it. On the last step, with a user object, \<^verbatim>\<open>handleNext\<close>
  calls \<^verbatim>\<open>update\<close> exactly once, with metadata whose completion flag is \<open>true\<close> and whose
  answer map is the whole accumulated map. If the provider accepts the write the wizard
  navigates to the dashboard, the submitting flag still raised. If the provider rejects
  it, the error is logged and the submitting flag is lowered again: the wizard is back
  on the last question with the same step and the same answers. Without a user object
  nothing is written and the wizard navigates to the dashboard.
\<close>

theorem last_step_submits_once:
  assumes "isLastStep st"
  shows "handleNext (Some usr) provider st =
           (case provider (submitted_metadata usr (answers st)) of
              None \<Rightarrow>
                (st\<lparr>isSubmitting := True\<rparr>,
                 [UserUpdate (submitted_metadata usr (answers st)), RouterPush ''/dashboard''])
            | Some e \<Rightarrow>
                (st\<lparr>isSubmitting := False\<rparr>,
                 [UserUpdate (submitted_metadata usr (answers st)),
                  ConsoleError ''Failed to save onboarding data:'' e]))
       \<and> submitted_metadata usr (answers st) ''hasCompletedOnboarding'' = Some (MJson (JBool True))
       \<and> submitted_metadata usr (answers st) ''onboardingAnswers'' = Some (MAnswers (answers st))
       \<and> handleNext None provider st = (st\<lparr>isSubmitting := True\<rparr>, [RouterPush ''/dashboard''])"
  using assms
  by (simp add: handleNext_def handleNext_begin_def handleNext_settle_def submitted_metadata_def
           split: option.splits)

text \<open>
  The theorem of claim C3 on the last step with all five questions answered, for a
  provider that accepts the write and for one that rejects it.
\<close>

theorem last_step_submits_once_witness:
  "isLastStep last_step_state
   \<and> handleNext (Some new_user) provider_up last_step_state
       = (last_step_state\<lparr>isSubmitting := True\<rparr>,
          [UserUpdate (submitted_metadata new_user (answers last_step_state)),
           RouterPush ''/dashboard''])
   \<and> handleNext (Some new_user) provider_down last_step_state
       = (last_step_state\<lparr>isSubmitting := False\<rparr>,
          [UserUpdate (submitted_metadata new_user (answers last_step_state)),
           ConsoleError ''Failed to save onboarding data:'' (Error ''Network request failed'')])"
  using last_step_submits_once [OF isLastStep_last_step_state, of new_user provider_up]
        last_step_submits_once [OF isLastStep_last_step_state, of new_user provider_down]
  by (simp add: isLastStep_last_step_state provider_up_def provider_down_def)

text \<open>
  Claim C3 fails as stated: after a rejected write the wizard is not in the submitting
  state any more, and on the last step without a user object the forward transition
  writes nothing and navigates away.
\<close>

theorem failed_write_leaves_submitting_state:
  "isLastStep last_step_state
   \<and> \<not> isSubmitting (fst (handleNext (Some new_user) provider_down last_step_state))
   \<and> filter is_update (snd (handleNext None provider_up last_step_state)) = []
   \<and> snd (handleNext None provider_up last_step_state) = [RouterPush ''/dashboard'']"
  by (simp add: isLastStep_last_step_state handleNext_def handleNext_begin_def
        handleNext_settle_def provider_down_def provider_up_def)

text \<open>
  Claim C9. The metadata the wizard writes on the last step has the completion flag set
  to \<open>true\<close> and the answer map under \<open>onboardingAnswers\<close>, and at every other key it
  is the user's metadata as it was before (nothing, where there was no metadata).
\<close>

theorem completion_write_preserves_other_metadata:
  assumes "isLastStep st"
  shows "\<exists>written.
           filter is_update (snd (handleNext (Some usr) provider st)) = [UserUpdate written]
         \<and> written ''hasCompletedOnboarding'' = Some (MJson (JBool True))
         \<and> written ''onboardingAnswers'' = Some (MAnswers (answers st))
         \<and> (\<forall>k. k \<noteq> ''hasCompletedOnboarding'' \<and> k \<noteq> ''onboardingAnswers'' \<longrightarrow>
                written k = (case unsafeMetadata usr of None \<Rightarrow> None | Some m \<Rightarrow> m k))"
  using assms
  by (auto simp: handleNext_def handleNext_begin_def handleNext_settle_def submitted_metadata_def
           split: option.splits)

text \<open>
  The theorem of claim C9 for a user whose metadata holds a \<open>plan\<close> member: the write
  carries it along unchanged.
\<close>

theorem completion_write_preserves_other_metadata_witness:
  "isLastStep last_step_state
   \<and> (\<exists>written.
         filter is_update (snd (handleNext (Some new_user) provider_up last_step_state))
           = [UserUpdate written]
       \<and> written ''plan'' = Some (MJson (JStr ''pro''))
       \<and> written ''hasCompletedOnboarding'' = Some (MJson (JBool True)))"
proof -
  from completion_write_preserves_other_metadata [OF isLastStep_last_step_state, of new_user provider_up]
  obtain written where
    w: "filter is_update (snd (handleNext (Some new_user) provider_up last_step_state))
          = [UserUpdate written]"
    and flag: "written ''hasCompletedOnboarding'' = Some (MJson (JBool True))"
    and frame: "\<forall>k. k \<noteq> ''hasCompletedOnboarding'' \<and> k \<noteq> ''onboardingAnswers'' \<longrightarrow>
                written k = (case unsafeMetadata new_user of None \<Rightarrow> None | Some m \<Rightarrow> m k)"
    by blast
  from frame have "written ''plan'' = (case unsafeMetadata new_user of None \<Rightarrow> None | Some m \<Rightarrow> m ''plan'')"
    by simp
  then have "written ''plan'' = Some (MJson (JStr ''pro''))"
    by (simp add: new_user_def)
  with w flag show ?thesis
    using isLastStep_last_step_state by blast
qed

text \<open>
  Claim C5. Once the authentication state is loaded and the user's metadata carries a
  truthy completion flag, the page renders the spinner, not a question, and pushes the
  dashboard route; the onboarding guard does not send such a user to the wizard.
\<close>

theorem completed_user_is_redirected:
  assumes "isLoaded a" and "truthy_meta (hasCompletedOnboarding u)"
  shows "render a u st = (Spinner, [RouterPush ''/dashboard''])
       \<and> snd (useOnboardingGuard loaded u) = []"
  using assms by (simp add: render_def alreadyCompleted_def useOnboardingGuard_def Let_def)

text \<open>The theorem of claim C5 for a user whose completion flag is \<open>true\<close>.\<close>

theorem completed_user_is_redirected_witness:
  "isLoaded example_auth
   \<and> truthy_meta (hasCompletedOnboarding (Some onboarded_user))
   \<and> render example_auth (Some onboarded_user) initial = (Spinner, [RouterPush ''/dashboard''])"
proof -
  have l: "isLoaded example_auth"
    by (simp add: example_auth_def)
  have t: "truthy_meta (hasCompletedOnboarding (Some onboarded_user))"
    by (simp add: hasCompletedOnboarding_def onboarded_user_def)
  from completed_user_is_redirected [OF l t, of initial True] l t show ?thesis
    by simp
qed

end
